theory Spec2Isabelle
  imports Main "HOL-Library.Word" "HOL-Library.AList"
begin

unbundle bit_operations_syntax

section \<open>Values exchanged with the memory service\<close>

text \<open>
  The client of \<^verbatim>\<open>legacy/conversation_database.py\<close> builds Python dictionaries, hands
  them to \<^verbatim>\<open>requests\<close> as the \<^verbatim>\<open>json=\<close> argument and returns what
  \<^verbatim>\<open>response.json()\<close> decodes. Both sides are JSON values. A dictionary is an
  association list read with \<^const>\<open>map_of\<close>. Numbers are Python integers; the client
  never computes on a number, and floats are left out.
\<close>

datatype json =
    JNull
  | JBool bool
  | JInt int
  | JStr string
  | JList "json list"
  | JObj "(string \<times> json) list"

type_synonym pydict = "(string \<times> json) list"

record request =
  verb :: string
  url :: string
  req_headers :: "(string \<times> string) list"
  json_arg :: "json option"

text \<open>
  A response as the client reads it: \<^verbatim>\<open>response.status_code\<close>,
  \<^verbatim>\<open>response.text\<close>, and the value \<^verbatim>\<open>response.json()\<close> decodes from the body
  (\<open>None\<close> when the body is not JSON and the call raises).
\<close>

record response =
  status_code :: int
  body_text :: string
  json_value :: "json option"

text \<open>
  The exceptions that can leave a method of the client. \<open>HTTPError\<close> is
  \<^verbatim>\<open>requests.exceptions.HTTPError\<close>, which \<^verbatim>\<open>raise_for_status\<close> raises with the
  response attached; \<open>RequestException\<close> stands for what \<^verbatim>\<open>requests\<close> raises when no
  response is obtained (connection refused, timeout, ...).
\<close>

datatype error =
    HTTPError response
  | RequestException string
  | JSONDecodeError
  | KeyError string
  | TypeError
  | AttributeError
  | ValueError

type_synonym exchange = "request \<times> (error + response)"

section \<open>The environment and the program state\<close>

text \<open>
  Everything outside the process is a parameter: the network and the service behind it
  (\<open>transport\<close>), the operating system's random bytes (\<open>urandom16\<close>, the sixteen
  bytes of \<^verbatim>\<open>os.urandom(16)\<close> read as a big-endian integer) and the wall clock
  (\<open>now_isoformat\<close>, the string \<^verbatim>\<open>datetime.now().isoformat()\<close>). Each one reads and
  may change the outside world \<open>'w\<close>.
\<close>

record 'w env =
  transport :: "request \<Rightarrow> 'w \<Rightarrow> (error + response) \<times> 'w"
  urandom16 :: "'w \<Rightarrow> 128 word \<times> 'w"
  now_isoformat :: "'w \<Rightarrow> string \<times> 'w"

text \<open>
  The object of class \<^verbatim>\<open>ZepConversationDB\<close>: its two attributes, set by
  \<^verbatim>\<open>__init__\<close>.
\<close>

record ZepConversationDB =
  base_url :: string
  headers :: "(string \<times> string) list"

text \<open>
  The state a method runs in: the object \<^verbatim>\<open>self\<close>, the outside world, and a ghost
  log of every exchange with the transport, oldest first.
\<close>

record 'w state =
  db :: ZepConversationDB
  world :: 'w
  trace :: "exchange list"

definition init :: "string \<Rightarrow> string \<Rightarrow> ZepConversationDB" where
  "init base api_key =
     \<lparr>base_url = base,
      headers = [(''Authorization'', ''Api-Key '' @ api_key),
                 (''Content-Type'', ''application/json'')]\<rparr>"

definition default_base_url :: string where
  "default_base_url = ''http://localhost:8000/api/v2''"

definition default_api_key :: string where
  "default_api_key = ''zep-local-secret-key-12345''"

section \<open>Python and library primitives\<close>

text \<open>\<^verbatim>\<open>metadata or {}\<close> for an optional dictionary: \<^verbatim>\<open>None\<close> and the empty
  dictionary are both falsy.\<close>

definition or_empty :: "pydict option \<Rightarrow> pydict" where
  "or_empty metadata = (case metadata of None \<Rightarrow> [] | Some d \<Rightarrow> (if d = [] then [] else d))"

text \<open>An optional string argument as a JSON value: \<^verbatim>\<open>None\<close> is \<^verbatim>\<open>null\<close>.\<close>

definition opt_str :: "string option \<Rightarrow> json" where
  "opt_str x = (case x of None \<Rightarrow> JNull | Some v \<Rightarrow> JStr v)"

text \<open>\<^verbatim>\<open>d[k]\<close> raises \<^verbatim>\<open>KeyError\<close> on a missing key; \<^verbatim>\<open>d.get(k, default)\<close> does not.\<close>

definition dict_item :: "pydict \<Rightarrow> string \<Rightarrow> error + json" where
  "dict_item d k = (case map_of d k of None \<Rightarrow> Inl (KeyError k) | Some v \<Rightarrow> Inr v)"

definition dict_get :: "pydict \<Rightarrow> string \<Rightarrow> json \<Rightarrow> json" where
  "dict_get d k dflt = (case map_of d k of None \<Rightarrow> dflt | Some v \<Rightarrow> v)"

text \<open>\<^verbatim>\<open>len(x)\<close>: defined on lists, strings and dictionaries, a \<^verbatim>\<open>TypeError\<close> on
  \<^verbatim>\<open>None\<close>, booleans and integers.\<close>

fun py_len :: "json \<Rightarrow> error + nat" where
  "py_len (JList xs) = Inr (length xs)"
| "py_len (JStr s) = Inr (length s)"
| "py_len (JObj d) = Inr (length (remdups (map fst d)))"
| "py_len JNull = Inl TypeError"
| "py_len (JBool b) = Inl TypeError"
| "py_len (JInt i) = Inl TypeError"

text \<open>
  \<^verbatim>\<open>str(n)\<close> of an integer, as the f-string \<^verbatim>\<open>f"...?lastn={last_n}"\<close> renders it.
  CPython refuses to convert an integer of more than 4300 decimal digits (the default of
  \<^verbatim>\<open>sys.set_int_max_str_digits\<close>) and raises \<^verbatim>\<open>ValueError\<close>; the sign does not
  count as a digit.
\<close>

fun str_nat :: "nat \<Rightarrow> string" where
  "str_nat n =
     (if n < 10 then [''0123456789'' ! n]
      else str_nat (n div 10) @ [''0123456789'' ! (n mod 10)])"

declare str_nat.simps [simp del]

definition max_str_digits :: nat where
  "max_str_digits = 4300"

definition str_int :: "int \<Rightarrow> error + string" where
  "str_int i =
     (let digits = str_nat (nat \<bar>i\<bar>)
      in if max_str_digits < length digits then Inl ValueError
         else Inr (if i < 0 then CHR ''-'' # digits else digits))"

text \<open>
  \<^verbatim>\<open>uuid.uuid4()\<close> is \<^verbatim>\<open>UUID(bytes=os.urandom(16), version=4)\<close>: the constructor
  clears and sets the variant bits (\<^verbatim>\<open>0xc000 << 48\<close>, \<^verbatim>\<open>0x8000 << 48\<close>) and the
  version bits (\<^verbatim>\<open>0xf000 << 64\<close>, \<^verbatim>\<open>4 << 76\<close>) of the 128-bit integer;
  \<^verbatim>\<open>.hex\<close> is \<^verbatim>\<open>'%032x' % int\<close>, thirty-two lower-case hexadecimal digits, most
  significant first.
\<close>

definition uuid4_int :: "128 word \<Rightarrow> 128 word" where
  "uuid4_int r =
     (((r AND NOT (push_bit 48 0xc000)) OR push_bit 48 0x8000)
        AND NOT (push_bit 64 0xf000)) OR push_bit 76 4"

definition hex_digit :: "nat \<Rightarrow> char" where
  "hex_digit k = ''0123456789abcdef'' ! k"

definition uuid_hex :: "128 word \<Rightarrow> string" where
  "uuid_hex u = map (\<lambda>i. hex_digit (unat (drop_bit (4 * (31 - i)) u AND 0xf))) [0..<32]"

text \<open>
  \<^verbatim>\<open>requests.post(url, headers=..., json=...)\<close> and \<^verbatim>\<open>requests.get(url, headers=...)\<close>:
  one exchange with the transport, which either raises or yields a response.
\<close>

definition requests_request ::
  "'w env \<Rightarrow> request \<Rightarrow> 'w state \<Rightarrow> (error + response) \<times> 'w state" where
  "requests_request env rq s =
     (case transport env rq (world s) of
        (res, w') \<Rightarrow> (res, s\<lparr>world := w', trace := trace s @ [(rq, res)]\<rparr>))"

definition requests_post ::
  "'w env \<Rightarrow> string \<Rightarrow> (string \<times> string) list \<Rightarrow> json \<Rightarrow> 'w state
     \<Rightarrow> (error + response) \<times> 'w state" where
  "requests_post env u hs body s =
     requests_request env \<lparr>verb = ''POST'', url = u, req_headers = hs, json_arg = Some body\<rparr> s"

definition requests_get ::
  "'w env \<Rightarrow> string \<Rightarrow> (string \<times> string) list \<Rightarrow> 'w state
     \<Rightarrow> (error + response) \<times> 'w state" where
  "requests_get env u hs s =
     requests_request env \<lparr>verb = ''GET'', url = u, req_headers = hs, json_arg = None\<rparr> s"

text \<open>
  \<^verbatim>\<open>response.raise_for_status()\<close> of the \<^verbatim>\<open>requests\<close> library raises
  \<^verbatim>\<open>HTTPError(..., response=self)\<close> when \<^verbatim>\<open>400 <= status_code < 600\<close> (client and
  server errors) and returns \<^verbatim>\<open>None\<close> for every other status.
\<close>

definition raise_for_status :: "response \<Rightarrow> error + unit" where
  "raise_for_status r =
     (if 400 \<le> status_code r \<and> status_code r < 600 then Inl (HTTPError r) else Inr ())"

definition response_json :: "response \<Rightarrow> error + json" where
  "response_json r = (case json_value r of None \<Rightarrow> Inl JSONDecodeError | Some j \<Rightarrow> Inr j)"

section \<open>The methods of ZepConversationDB\<close>

definition create_user ::
  "'w env \<Rightarrow> string \<Rightarrow> string option \<Rightarrow> string option \<Rightarrow> string option \<Rightarrow> pydict option
     \<Rightarrow> 'w state \<Rightarrow> (error + json) \<times> 'w state" where
  "create_user env user_id email first_name last_name metadata s =
     (let user_data = JObj
            [(''user_id'', JStr user_id),
             (''email'', opt_str email),
             (''first_name'', opt_str first_name),
             (''last_name'', opt_str last_name),
             (''metadata'', JObj (or_empty metadata))]
      in case requests_post env (base_url (db s) @ ''/users'') (headers (db s)) user_data s of
           (Inl e, s1) \<Rightarrow> (Inl e, s1)
         | (Inr response, s1) \<Rightarrow>
             (case raise_for_status response of
                Inl e \<Rightarrow> (Inl e, s1)
              | Inr _ \<Rightarrow> (response_json response, s1)))"

text \<open>
  \<^verbatim>\<open>f"conv-{uuid.uuid4().hex[:8]}"\<close>: reads sixteen random bytes and keeps the first
  eight hexadecimal digits of the UUID built from them.
\<close>

definition generated_id :: "128 word \<Rightarrow> string" where
  "generated_id r = ''conv-'' @ take 8 (uuid_hex (uuid4_int r))"

definition new_session_id :: "'w env \<Rightarrow> 'w state \<Rightarrow> string \<times> 'w state" where
  "new_session_id env s =
     (case urandom16 env (world s) of (r, w') \<Rightarrow> (generated_id r, s\<lparr>world := w'\<rparr>))"

text \<open>
  \<^verbatim>\<open>if not session_id: session_id = ...\<close>: the default \<^verbatim>\<open>None\<close> and the empty
  string are both falsy. The identifier is settled before the request is made, and it
  is what the method returns once \<^verbatim>\<open>raise_for_status\<close> has passed; the body of
  the response is never read.
\<close>

definition create_conversation ::
  "'w env \<Rightarrow> string \<Rightarrow> string option \<Rightarrow> pydict option
     \<Rightarrow> 'w state \<Rightarrow> (error + string) \<times> 'w state" where
  "create_conversation env user_id session_id metadata s =
     (case (case session_id of
              None \<Rightarrow> new_session_id env s
            | Some sid \<Rightarrow> (if sid = [] then new_session_id env s else (sid, s))) of
        (session_id', s0) \<Rightarrow>
          (let session_data = JObj
                 [(''user_id'', JStr user_id),
                  (''session_id'', JStr session_id'),
                  (''metadata'', JObj (or_empty metadata))]
           in case requests_post env (base_url (db s0) @ ''/sessions'') (headers (db s0))
                     session_data s0 of
                (Inl e, s1) \<Rightarrow> (Inl e, s1)
              | (Inr response, s1) \<Rightarrow>
                  (case raise_for_status response of
                     Inl e \<Rightarrow> (Inl e, s1)
                   | Inr _ \<Rightarrow> (Inr session_id', s1))))"

definition add_message ::
  "'w env \<Rightarrow> string \<Rightarrow> string \<Rightarrow> string \<Rightarrow> pydict option
     \<Rightarrow> 'w state \<Rightarrow> (error + json) \<times> 'w state" where
  "add_message env session_id role content metadata s =
     (let message_data = JObj
            [(''messages'', JList
               [JObj [(''role'', JStr role),
                      (''role_type'', JStr role),
                      (''content'', JStr content),
                      (''metadata'', JObj (or_empty metadata))]])]
      in case requests_post env (base_url (db s) @ ''/sessions/'' @ session_id @ ''/memory'')
                (headers (db s)) message_data s of
           (Inl e, s1) \<Rightarrow> (Inl e, s1)
         | (Inr response, s1) \<Rightarrow>
             (case raise_for_status response of
                Inl e \<Rightarrow> (Inl e, s1)
              | Inr _ \<Rightarrow> (response_json response, s1)))"

text \<open>
  The loop of \<^verbatim>\<open>add_conversation_batch\<close>: each message is a dictionary;
  \<^verbatim>\<open>msg["role"]\<close> and \<^verbatim>\<open>msg["content"]\<close> raise \<^verbatim>\<open>KeyError\<close> on a missing key,
  \<^verbatim>\<open>msg.get("metadata", {})\<close> does not. The first failing message ends the loop, before
  any request is made.
\<close>

definition format_message :: "pydict \<Rightarrow> error + json" where
  "format_message msg =
     (case dict_item msg ''role'' of
        Inl e \<Rightarrow> Inl e
      | Inr role \<Rightarrow>
          (case dict_item msg ''content'' of
             Inl e \<Rightarrow> Inl e
           | Inr content \<Rightarrow>
               Inr (JObj [(''role'', role),
                          (''role_type'', role),
                          (''content'', content),
                          (''metadata'', dict_get msg ''metadata'' (JObj []))])))"

fun format_messages :: "json list \<Rightarrow> pydict list \<Rightarrow> error + json list" where
  "format_messages formatted_messages [] = Inr formatted_messages"
| "format_messages formatted_messages (msg # messages) =
     (case format_message msg of
        Inl e \<Rightarrow> Inl e
      | Inr m \<Rightarrow> format_messages (formatted_messages @ [m]) messages)"

definition add_conversation_batch ::
  "'w env \<Rightarrow> string \<Rightarrow> pydict list \<Rightarrow> 'w state \<Rightarrow> (error + json) \<times> 'w state" where
  "add_conversation_batch env session_id messages s =
     (case format_messages [] messages of
        Inl e \<Rightarrow> (Inl e, s)
      | Inr formatted_messages \<Rightarrow>
          (let message_data = JObj [(''messages'', JList formatted_messages)]
           in case requests_post env (base_url (db s) @ ''/sessions/'' @ session_id @ ''/memory'')
                     (headers (db s)) message_data s of
                (Inl e, s1) \<Rightarrow> (Inl e, s1)
              | (Inr response, s1) \<Rightarrow>
                  (case raise_for_status response of
                     Inl e \<Rightarrow> (Inl e, s1)
                   | Inr _ \<Rightarrow> (response_json response, s1))))"

text \<open>
  The URL of \<^verbatim>\<open>get_conversation_context\<close> is an f-string, evaluated before
  \<^verbatim>\<open>requests.get\<close> is called: when \<^verbatim>\<open>last_n\<close> cannot be converted, the method
  raises and no request is made.
\<close>

definition get_conversation_context ::
  "'w env \<Rightarrow> string \<Rightarrow> int \<Rightarrow> 'w state \<Rightarrow> (error + json) \<times> 'w state" where
  "get_conversation_context env session_id last_n s =
     (case str_int last_n of
        Inl e \<Rightarrow> (Inl e, s)
      | Inr n \<Rightarrow>
          (case requests_get env
                  (base_url (db s) @ ''/sessions/'' @ session_id @ ''/memory?lastn='' @ n)
                  (headers (db s)) s of
             (Inl e, s1) \<Rightarrow> (Inl e, s1)
           | (Inr response, s1) \<Rightarrow>
               (case raise_for_status response of
                  Inl e \<Rightarrow> (Inl e, s1)
                | Inr _ \<Rightarrow> (response_json response, s1))))"

definition get_user_conversations ::
  "'w env \<Rightarrow> string \<Rightarrow> 'w state \<Rightarrow> (error + json) \<times> 'w state" where
  "get_user_conversations env user_id s =
     (case requests_get env (base_url (db s) @ ''/users/'' @ user_id @ ''/sessions'')
             (headers (db s)) s of
        (Inl e, s1) \<Rightarrow> (Inl e, s1)
      | (Inr response, s1) \<Rightarrow>
          (case raise_for_status response of
             Inl e \<Rightarrow> (Inl e, s1)
           | Inr _ \<Rightarrow> (response_json response, s1)))"

definition search_conversations ::
  "'w env \<Rightarrow> string \<Rightarrow> string \<Rightarrow> 'w state \<Rightarrow> (error + json) \<times> 'w state" where
  "search_conversations env user_id query s =
     (case get_user_conversations env user_id s of
        (Inl e, s1) \<Rightarrow> (Inl e, s1)
      | (Inr conversations, s1) \<Rightarrow> (Inr conversations, s1))"

text \<open>
  \<^verbatim>\<open>get_conversation_summary\<close> calls \<^verbatim>\<open>get_conversation_context\<close> with the default
  \<^verbatim>\<open>last_n=10\<close> and builds its dictionary entry by entry: \<^verbatim>\<open>context.get\<close> exists
  only on a dictionary (\<^verbatim>\<open>AttributeError\<close> otherwise), \<^verbatim>\<open>len\<close> may raise, and the
  clock is read last.
\<close>

definition get_conversation_summary ::
  "'w env \<Rightarrow> string \<Rightarrow> 'w state \<Rightarrow> (error + json) \<times> 'w state" where
  "get_conversation_summary env session_id s =
     (case get_conversation_context env session_id 10 s of
        (Inl e, s1) \<Rightarrow> (Inl e, s1)
      | (Inr context, s1) \<Rightarrow>
          (case context of
             JObj d \<Rightarrow>
               (case py_len (dict_get d ''messages'' (JList [])) of
                  Inl e \<Rightarrow> (Inl e, s1)
                | Inr n \<Rightarrow>
                    (case now_isoformat env (world s1) of
                       (t, w') \<Rightarrow>
                         (Inr (JObj
                            [(''session_id'', JStr session_id),
                             (''message_count'', JInt (int n)),
                             (''relevant_facts'', dict_get d ''relevant_facts'' (JList [])),
                             (''context'', dict_get d ''context'' (JStr [])),
                             (''last_updated'', JStr t)]),
                          s1\<lparr>world := w'\<rparr>)))
           | _ \<Rightarrow> (Inl AttributeError, s1)))"

section \<open>The memory service as the specification describes it\<close>

text \<open>
  Modelled from the spec: the memory service behind the HTTP interface, which is not among
  the sources. Section 3 of the specification: a session holds its messages as an ordered,
  append-only list in insertion order, and a context snapshot holds the last N messages
  and a list of relevant facts, which are opaque to the client. Nothing else of the
  service's state matters to the two memory endpoints.
\<close>

record service =
  stored :: "(string \<times> json list) list"
  facts :: "string \<Rightarrow> json list"

text \<open>
  Modelled from the spec: the service is reached under a base URL, and section 6 gives the
  path \<^verbatim>\<open>/sessions/{session_id}/memory\<close> and the query \<^verbatim>\<open>lastn={N}\<close>. A URL is read
  the usual way: what follows the first \<^verbatim>\<open>#\<close> is a fragment and never reaches the
  service; the path ends at the first \<^verbatim>\<open>?\<close>; its segments are separated by \<^verbatim>\<open>/\<close>;
  the query is a list of \<^verbatim>\<open>key=value\<close> pairs separated by \<^verbatim>\<open>&\<close>, the first pair
  of a key giving its value; \<^verbatim>\<open>N\<close> is a decimal number.
\<close>

definition split_on :: "char \<Rightarrow> string \<Rightarrow> string \<times> string" where
  "split_on c s = (takeWhile (\<lambda>x. x \<noteq> c) s, drop 1 (dropWhile (\<lambda>x. x \<noteq> c) s))"

fun split_all :: "char \<Rightarrow> string \<Rightarrow> string list" where
  "split_all c [] = [[]]"
| "split_all c (x # xs) =
     (if x = c then [] # split_all c xs
      else (case split_all c xs of [] \<Rightarrow> [[x]] | y # ys \<Rightarrow> (x # y) # ys))"

definition digit_value :: "char \<Rightarrow> nat option" where
  "digit_value c = map_of (zip ''0123456789'' [0..<10]) c"

fun parse_digits :: "nat \<Rightarrow> string \<Rightarrow> nat option" where
  "parse_digits acc [] = Some acc"
| "parse_digits acc (c # cs) =
     (case digit_value c of None \<Rightarrow> None | Some d \<Rightarrow> parse_digits (10 * acc + d) cs)"

definition parse_nat :: "string \<Rightarrow> nat option" where
  "parse_nat s = (if s = [] then None else parse_digits 0 s)"

definition memory_route :: "string \<Rightarrow> string \<Rightarrow> (string \<times> string) option" where
  "memory_route mount u =
     (if take (length mount) u = mount then
        (case split_on CHR ''?'' (fst (split_on CHR ''#'' (drop (length mount) u))) of
           (path, query) \<Rightarrow>
             (case split_all CHR ''/'' path of
                [a, b, sid, c] \<Rightarrow>
                  (if a = [] \<and> b = ''sessions'' \<and> c = ''memory'' then Some (sid, query)
                   else None)
              | _ \<Rightarrow> None))
      else None)"

definition query_param :: "string \<Rightarrow> string \<Rightarrow> string option" where
  "query_param query k = map_of (map (split_on CHR ''='') (split_all CHR ''&'' query)) k"

text \<open>
  Modelled from the spec: the most recent \<open>n\<close> messages of a session, in insertion order.
\<close>

definition last_messages :: "nat \<Rightarrow> json list \<Rightarrow> json list" where
  "last_messages n ms = drop (length ms - n) ms"

definition answer :: "int \<Rightarrow> json \<Rightarrow> response" where
  "answer code j = \<lparr>status_code = code, body_text = [], json_value = Some j\<rparr>"

text \<open>
  Modelled from the spec: the two memory endpoints. POST appends the messages of the body
  to the session, in the order of the body; GET answers with the last \<^verbatim>\<open>lastn\<close> messages
  and the facts. A message cannot exist without its session, so an unknown session is an
  error; the specification leaves the failure statuses open, and the client treats every
  status from 400 to 599 alike.
\<close>

definition service :: "string \<Rightarrow> request \<Rightarrow> service \<Rightarrow> (error + response) \<times> service" where
  "service mount rq \<sigma> =
     (case memory_route mount (url rq) of
        None \<Rightarrow> (Inr (answer 404 (JStr ''not found'')), \<sigma>)
      | Some (sid, query) \<Rightarrow>
          (case map_of (stored \<sigma>) sid of
             None \<Rightarrow> (Inr (answer 404 (JStr ''not found'')), \<sigma>)
           | Some ms \<Rightarrow>
               (if verb rq = ''POST'' then
                  (case json_arg rq of
                     Some (JObj d) \<Rightarrow>
                       (case map_of d ''messages'' of
                          Some (JList new) \<Rightarrow>
                            (Inr (answer 200 (JStr ''OK'')),
                             \<sigma>\<lparr>stored := AList.update sid (ms @ new) (stored \<sigma>)\<rparr>)
                        | _ \<Rightarrow> (Inr (answer 400 (JStr ''bad request'')), \<sigma>))
                   | _ \<Rightarrow> (Inr (answer 400 (JStr ''bad request'')), \<sigma>))
                else if verb rq = ''GET'' then
                  (case query_param query ''lastn'' of
                     None \<Rightarrow> (Inr (answer 400 (JStr ''bad request'')), \<sigma>)
                   | Some digits \<Rightarrow>
                       (case parse_nat digits of
                          None \<Rightarrow> (Inr (answer 400 (JStr ''bad request'')), \<sigma>)
                        | Some n \<Rightarrow>
                            (Inr (answer 200
                               (JObj [(''messages'', JList (last_messages n ms)),
                                      (''relevant_facts'', JList (facts \<sigma> sid))])),
                             \<sigma>)))
                else (Inr (answer 405 (JStr ''method not allowed'')), \<sigma>))))"

text \<open>
  An identifier written with ASCII letters, digits, \<^verbatim>\<open>-\<close> and \<^verbatim>\<open>_\<close> only, like the
  identifiers the client generates and the scripts use. The client puts identifiers into
  URLs unquoted; such an identifier cannot change how the URL is read.
\<close>

definition plain_id :: "string \<Rightarrow> bool" where
  "plain_id sid \<longleftrightarrow>
     sid \<noteq> [] \<and>
     set sid \<subseteq> set ''abcdefghijklmnopqrstuvwxyzABCDEFGHIJKLMNOPQRSTUVWXYZ0123456789-_''"

section \<open>Callers\<close>

text \<open>
  A caller uses the object through its eight methods. \<open>run_call\<close> dispatches one call
  (the session identifier that \<^verbatim>\<open>create_conversation\<close> returns is a Python string);
  \<open>run_calls\<close> is a caller that makes one call after the other and goes on after an
  exception, as the \<^verbatim>\<open>try\<close>/\<^verbatim>\<open>except\<close> blocks of
  \<^verbatim>\<open>simple_integration_example.py\<close> do.
\<close>

datatype call =
    CreateUser string "string option" "string option" "string option" "pydict option"
  | CreateConversation string "string option" "pydict option"
  | AddMessage string string string "pydict option"
  | AddConversationBatch string "pydict list"
  | GetConversationContext string int
  | GetUserConversations string
  | SearchConversations string string
  | GetConversationSummary string

fun run_call :: "'w env \<Rightarrow> call \<Rightarrow> 'w state \<Rightarrow> (error + json) \<times> 'w state" where
  "run_call env (CreateUser user_id email first_name last_name metadata) s =
     create_user env user_id email first_name last_name metadata s"
| "run_call env (CreateConversation user_id session_id metadata) s =
     (case create_conversation env user_id session_id metadata s of
        (Inl e, s1) \<Rightarrow> (Inl e, s1)
      | (Inr sid, s1) \<Rightarrow> (Inr (JStr sid), s1))"
| "run_call env (AddMessage session_id role content metadata) s =
     add_message env session_id role content metadata s"
| "run_call env (AddConversationBatch session_id messages) s =
     add_conversation_batch env session_id messages s"
| "run_call env (GetConversationContext session_id last_n) s =
     get_conversation_context env session_id last_n s"
| "run_call env (GetUserConversations user_id) s =
     get_user_conversations env user_id s"
| "run_call env (SearchConversations user_id query) s =
     search_conversations env user_id query s"
| "run_call env (GetConversationSummary session_id) s =
     get_conversation_summary env session_id s"

fun run_calls :: "'w env \<Rightarrow> call list \<Rightarrow> 'w state \<Rightarrow> (error + json) list \<times> 'w state" where
  "run_calls env [] s = ([], s)"
| "run_calls env (c # cs) s =
     (case run_call env c s of
        (res, s1) \<Rightarrow> (case run_calls env cs s1 of (rs, s2) \<Rightarrow> (res # rs, s2)))"

text \<open>The exchanges a run added to the log of the state it started from.\<close>

definition new_exchanges :: "'w state \<Rightarrow> 'w state \<Rightarrow> exchange list" where
  "new_exchanges s s' = drop (length (trace s)) (trace s')"

section \<open>The specification's reading of single messages\<close>

text \<open>
  The specification describes \<^verbatim>\<open>addMessage(sessionId, role, content, metadata?)\<close> as
  wrapping the message \<^verbatim>\<open>{role, content, metadata?}\<close> as a one-element batch and
  delegating to \<^verbatim>\<open>addMessageBatch\<close>. \<open>spec_message\<close> is that message as a dictionary
  (the key \<^verbatim>\<open>metadata\<close> is absent when no metadata is given) and
  \<open>spec_add_message\<close> is the delegation.
\<close>

definition spec_message :: "string \<Rightarrow> string \<Rightarrow> pydict option \<Rightarrow> pydict" where
  "spec_message role content metadata =
     [(''role'', JStr role), (''content'', JStr content)]
       @ (case metadata of None \<Rightarrow> [] | Some d \<Rightarrow> [(''metadata'', JObj d)])"

definition spec_add_message ::
  "'w env \<Rightarrow> string \<Rightarrow> string \<Rightarrow> string \<Rightarrow> pydict option
     \<Rightarrow> 'w state \<Rightarrow> (error + json) \<times> 'w state" where
  "spec_add_message env session_id role content metadata s =
     add_conversation_batch env session_id [spec_message role content metadata] s"

section \<open>Reading requests and context snapshots\<close>

text \<open>
  The entries of the \<^verbatim>\<open>messages\<close> array in the JSON body of a request (none when the
  request has no such array), and whether an entry carries a \<^verbatim>\<open>role_type\<close> equal to
  its \<^verbatim>\<open>role\<close>.
\<close>

definition body_messages :: "request \<Rightarrow> json list" where
  "body_messages rq =
     (case json_arg rq of
        Some (JObj d) \<Rightarrow> (case map_of d ''messages'' of Some (JList ms) \<Rightarrow> ms | _ \<Rightarrow> [])
      | _ \<Rightarrow> [])"

definition role_fields_agree :: "json \<Rightarrow> bool" where
  "role_fields_agree m =
     (case m of
        JObj d \<Rightarrow>
          (case map_of d ''role_type'' of
             None \<Rightarrow> False
           | Some t \<Rightarrow> map_of d ''role'' = Some t)
      | _ \<Rightarrow> False)"

text \<open>A field of an entry of the \<^verbatim>\<open>messages\<close> array.\<close>

definition entry_field :: "json \<Rightarrow> string \<Rightarrow> json option" where
  "entry_field m k = (case m of JObj d \<Rightarrow> map_of d k | _ \<Rightarrow> None)"

text \<open>
  What the callers make of a returned context: \<^verbatim>\<open>context.get('messages', [])\<close>, which
  needs a dictionary, and \<^verbatim>\<open>len\<close> of it, the number of messages returned.
\<close>

definition returned_messages :: "json \<Rightarrow> error + json" where
  "returned_messages context =
     (case context of
        JObj d \<Rightarrow> Inr (dict_get d ''messages'' (JList []))
      | _ \<Rightarrow> Inl AttributeError)"

definition returned_count :: "json \<Rightarrow> error + nat" where
  "returned_count context =
     (case returned_messages context of Inl e \<Rightarrow> Inl e | Inr v \<Rightarrow> py_len v)"

text \<open>
  Two caller messages agree on the three keys \<^verbatim>\<open>add_conversation_batch\<close> reads.
\<close>

definition same_message :: "pydict \<Rightarrow> pydict \<Rightarrow> bool" where
  "same_message msg msg' =
     (map_of msg ''role'' = map_of msg' ''role''
      \<and> map_of msg ''content'' = map_of msg' ''content''
      \<and> map_of msg ''metadata'' = map_of msg' ''metadata'')"

section \<open>Test doubles\<close>

text \<open>
  A service double that answers every request with the same response, a random source
  that always yields the same sixteen bytes and a clock that always shows the same time;
  the world behind them is trivial. \<open>down\<close> is a transport that never reaches the
  service.
\<close>

definition canned :: "response \<Rightarrow> 128 word \<Rightarrow> unit env" where
  "canned r b =
     \<lparr>transport = (\<lambda>rq w. (Inr r, w)),
      urandom16 = (\<lambda>w. (b, w)),
      now_isoformat = (\<lambda>w. (''2024-01-01T00:00:00'', w))\<rparr>"

definition down :: "unit env" where
  "down =
     \<lparr>transport = (\<lambda>rq w. (Inl (RequestException ''connection refused''), w)),
      urandom16 = (\<lambda>w. (0, w)),
      now_isoformat = (\<lambda>w. (''2024-01-01T00:00:00'', w))\<rparr>"

text \<open>
  A process whose random source hands out the sixteen-byte strings of a given list, one
  per read, against a service that answers every request with the same response.
\<close>

definition tape :: "response \<Rightarrow> (128 word list) env" where
  "tape r =
     \<lparr>transport = (\<lambda>rq w. (Inr r, w)),
      urandom16 = (\<lambda>w. case w of [] \<Rightarrow> (0, []) | b # bs \<Rightarrow> (b, bs)),
      now_isoformat = (\<lambda>w. (''2024-01-01T00:00:00'', w))\<rparr>"

text \<open>
  The service of the specification mounted at the default base URL, and a state in which
  it holds one session, \<^verbatim>\<open>s1\<close>, with the given messages.
\<close>

definition zep :: "service env" where
  "zep =
     \<lparr>transport = service default_base_url,
      urandom16 = (\<lambda>w. (0, w)),
      now_isoformat = (\<lambda>w. (''2024-01-01T00:00:00'', w))\<rparr>"

definition holding :: "json list \<Rightarrow> service state" where
  "holding ms =
     \<lparr>db = init default_base_url default_api_key,
      world = \<lparr>stored = [(''s1'', ms)], facts = (\<lambda>sid. [])\<rparr>,
      trace = []\<rparr>"

definition fresh :: "unit state" where
  "fresh = \<lparr>db = init default_base_url default_api_key, world = (), trace = []\<rparr>"

definition reply :: "int \<Rightarrow> json \<Rightarrow> response" where
  "reply code j = \<lparr>status_code = code, body_text = [], json_value = Some j\<rparr>"

definition not_found :: response where
  "not_found = \<lparr>status_code = 404, body_text = ''not found'', json_value = None\<rparr>"

text \<open>
  A batch of two caller messages, the first with a \<^verbatim>\<open>role_type\<close> of its own and no
  metadata, and the entries \<^verbatim>\<open>add_conversation_batch\<close> sends for them.
\<close>

definition hello_batch :: "pydict list" where
  "hello_batch =
     [[(''role'', JStr ''user''), (''role_type'', JStr ''system''), (''content'', JStr ''hello'')],
      [(''role'', JStr ''assistant''), (''content'', JStr ''hi''),
       (''metadata'', JObj [(''lang'', JStr ''en'')])]]"

definition hello_formatted :: "json list" where
  "hello_formatted =
     [JObj [(''role'', JStr ''user''), (''role_type'', JStr ''user''),
            (''content'', JStr ''hello''), (''metadata'', JObj [])],
      JObj [(''role'', JStr ''assistant''), (''role_type'', JStr ''assistant''),
            (''content'', JStr ''hi''), (''metadata'', JObj [(''lang'', JStr ''en'')])]]"

text \<open>A context snapshot a service may answer with.\<close>

definition snapshot :: json where
  "snapshot = JObj [(''messages'', JList hello_formatted),
                    (''relevant_facts'', JList [JStr ''speaks English'']),
                    (''context'', JStr ''a greeting'')]"

section \<open>Basic facts about one exchange\<close>

lemma requests_request_result:
  "requests_request env rq s =
     (fst (transport env rq (world s)),
      s\<lparr>world := snd (transport env rq (world s)),
        trace := trace s @ [(rq, fst (transport env rq (world s)))]\<rparr>)"
  by (simp add: requests_request_def split: prod.splits)

lemma search_conversations_eq:
  "search_conversations env user_id query s = get_user_conversations env user_id s"
  by (simp add: search_conversations_def split: prod.splits sum.splits)

lemma format_message_spec_message:
  "format_message (spec_message role content metadata) =
     Inr (JObj [(''role'', JStr role), (''role_type'', JStr role), (''content'', JStr content),
                (''metadata'', JObj (or_empty metadata))])"
  by (cases metadata)
     (simp_all add: format_message_def spec_message_def dict_item_def dict_get_def or_empty_def)

lemmas double_defs = canned_def down_def fresh_def reply_def init_def
  default_base_url_def default_api_key_def

lemma str_int_examples:
  "str_int 1 = Inr ''1''" "str_int 2 = Inr ''2''" "str_int 10 = Inr ''10''"
  by code_simp+

lemma new_exchanges_self [simp]: "new_exchanges s s = []"
  by (simp add: new_exchanges_def)

lemma new_exchanges_world [simp]: "new_exchanges s (s'\<lparr>world := w\<rparr>) = new_exchanges s s'"
  by (simp add: new_exchanges_def)

lemma new_exchanges_one [simp]: "new_exchanges s (s\<lparr>trace := trace s @ xs\<rparr>) = xs"
  by (simp add: new_exchanges_def)

lemma requests_request_snd:
  "snd (requests_request env rq s) =
     s\<lparr>world := snd (transport env rq (world s)),
       trace := trace s @ [(rq, fst (transport env rq (world s)))]\<rparr>"
  by (simp add: requests_request_result)

lemma body_messages_post [simp]:
  "body_messages \<lparr>verb = v, url = u, req_headers = h, json_arg = Some (JObj [(''messages'', JList ms)])\<rparr> = ms"
  by (simp add: body_messages_def)

lemma requests_post_new [simp]:
  "new_exchanges s (snd (requests_post env u h b s)) =
     [(\<lparr>verb = ''POST'', url = u, req_headers = h, json_arg = Some b\<rparr>,
       fst (transport env \<lparr>verb = ''POST'', url = u, req_headers = h, json_arg = Some b\<rparr> (world s)))]"
  by (simp add: requests_post_def requests_request_result new_exchanges_def)

lemma requests_get_new [simp]:
  "new_exchanges s (snd (requests_get env u h s)) =
     [(\<lparr>verb = ''GET'', url = u, req_headers = h, json_arg = None\<rparr>,
       fst (transport env \<lparr>verb = ''GET'', url = u, req_headers = h, json_arg = None\<rparr> (world s)))]"
  by (simp add: requests_get_def requests_request_result new_exchanges_def)

text \<open>The state each method leaves.\<close>

lemma create_user_snd:
  "snd (create_user env user_id email first_name last_name metadata s) =
     snd (requests_post env (base_url (db s) @ ''/users'') (headers (db s))
            (JObj [(''user_id'', JStr user_id), (''email'', opt_str email),
                   (''first_name'', opt_str first_name), (''last_name'', opt_str last_name),
                   (''metadata'', JObj (or_empty metadata))]) s)"
  by (simp add: create_user_def Let_def split: prod.splits sum.splits)

lemma add_message_snd:
  "snd (add_message env session_id role content metadata s) =
     snd (requests_post env (base_url (db s) @ ''/sessions/'' @ session_id @ ''/memory'')
            (headers (db s))
            (JObj [(''messages'', JList [JObj [(''role'', JStr role), (''role_type'', JStr role),
               (''content'', JStr content), (''metadata'', JObj (or_empty metadata))]])]) s)"
  by (simp add: add_message_def Let_def split: prod.splits sum.splits)

lemma add_conversation_batch_snd:
  "snd (add_conversation_batch env session_id messages s) =
     (case format_messages [] messages of
        Inl e \<Rightarrow> s
      | Inr fm \<Rightarrow>
          snd (requests_post env (base_url (db s) @ ''/sessions/'' @ session_id @ ''/memory'')
                 (headers (db s)) (JObj [(''messages'', JList fm)]) s))"
  by (simp add: add_conversation_batch_def Let_def split: prod.splits sum.splits)

lemma get_conversation_context_snd:
  "snd (get_conversation_context env session_id last_n s) =
     (case str_int last_n of
        Inl e \<Rightarrow> s
      | Inr n \<Rightarrow>
          snd (requests_get env
                 (base_url (db s) @ ''/sessions/'' @ session_id @ ''/memory?lastn='' @ n)
                 (headers (db s)) s))"
  by (simp add: get_conversation_context_def split: prod.splits sum.splits)

lemma get_user_conversations_snd:
  "snd (get_user_conversations env user_id s) =
     snd (requests_get env (base_url (db s) @ ''/users/'' @ user_id @ ''/sessions'')
            (headers (db s)) s)"
  by (simp add: get_user_conversations_def split: prod.splits sum.splits)

lemma new_exchanges_cong:
  "trace s0 = trace s \<Longrightarrow> trace t0 = trace t \<Longrightarrow> new_exchanges s0 t0 = new_exchanges s t"
  by (simp add: new_exchanges_def)

lemma new_session_id_keeps:
  "new_session_id env s = (sid, s0) \<Longrightarrow> trace s0 = trace s \<and> db s0 = db s"
  by (auto simp: new_session_id_def split: prod.splits)

lemma create_conversation_snd:
  "snd (create_conversation env user_id session_id metadata s) =
     (case (case session_id of
              None \<Rightarrow> new_session_id env s
            | Some sid \<Rightarrow> (if sid = [] then new_session_id env s else (sid, s))) of
        (sid, s0) \<Rightarrow>
          snd (requests_post env (base_url (db s0) @ ''/sessions'') (headers (db s0))
                 (JObj [(''user_id'', JStr user_id), (''session_id'', JStr sid),
                        (''metadata'', JObj (or_empty metadata))]) s0))"
  by (cases session_id)
     (simp_all add: create_conversation_def Let_def raise_for_status_def
        split: prod.splits sum.splits)

lemma get_conversation_summary_trace:
  "trace (snd (get_conversation_summary env session_id s)) =
     trace (snd (get_conversation_context env session_id 10 s))"
  by (simp add: get_conversation_summary_def split: prod.splits sum.splits json.splits)

lemma get_conversation_summary_db:
  "db (snd (get_conversation_summary env session_id s)) =
     db (snd (get_conversation_context env session_id 10 s))"
  by (simp add: get_conversation_summary_def split: prod.splits sum.splits json.splits)

lemma create_conversation_new:
  "\<exists>sid res. new_exchanges s (snd (create_conversation env user_id session_id metadata s)) =
     [(\<lparr>verb = ''POST'', url = base_url (db s) @ ''/sessions'', req_headers = headers (db s),
        json_arg = Some (JObj [(''user_id'', JStr user_id), (''session_id'', JStr sid),
                               (''metadata'', JObj (or_empty metadata))])\<rparr>, res)]"
proof -
  obtain sid s0 where ch:
    "(case session_id of None \<Rightarrow> new_session_id env s
      | Some x \<Rightarrow> (if x = [] then new_session_id env s else (x, s))) = (sid, s0)"
    by (cases "(case session_id of None \<Rightarrow> new_session_id env s
      | Some x \<Rightarrow> (if x = [] then new_session_id env s else (x, s)))")
  have s0: "trace s0 = trace s \<and> db s0 = db s"
    using ch by (auto split: option.splits if_splits dest: new_session_id_keeps)
  let ?t = "snd (create_conversation env user_id session_id metadata s)"
  have "new_exchanges s ?t = new_exchanges s0 ?t"
    using s0 by (simp add: new_exchanges_def)
  then show ?thesis
    using ch s0 by (simp add: create_conversation_snd)
qed

section \<open>The formatting loop\<close>

lemma format_message_Inr:
  "format_message msg = Inr m \<longleftrightarrow>
     (\<exists>role content. map_of msg ''role'' = Some role \<and> map_of msg ''content'' = Some content
        \<and> m = JObj [(''role'', role), (''role_type'', role), (''content'', content),
                     (''metadata'', dict_get msg ''metadata'' (JObj []))])"
  by (cases "map_of msg ''role''"; cases "map_of msg ''content''")
     (auto simp add: format_message_def dict_item_def)

lemma format_message_agrees: "format_message msg = Inr m \<Longrightarrow> role_fields_agree m"
  unfolding format_message_Inr by (auto simp add: role_fields_agree_def)

lemma format_messages_agree:
  "format_messages acc msgs = Inr fm \<Longrightarrow> list_all role_fields_agree acc
     \<Longrightarrow> list_all role_fields_agree fm"
proof (induction msgs arbitrary: acc)
  case Nil
  then show ?case by simp
next
  case (Cons msg msgs)
  from Cons.prems(1) obtain m where m: "format_message msg = Inr m"
    and rest: "format_messages (acc @ [m]) msgs = Inr fm"
    by (cases "format_message msg") simp_all
  have "list_all role_fields_agree (acc @ [m])"
    using Cons.prems(2) format_message_agrees [OF m] by simp
  then show ?case
    using Cons.IH [OF rest] by simp
qed

lemma format_message_cong:
  "same_message msg msg' \<Longrightarrow> format_message msg = format_message msg'"
  unfolding same_message_def format_message_def dict_item_def dict_get_def
  by presburger

lemma format_messages_cong:
  "list_all2 same_message msgs msgs' \<Longrightarrow> format_messages acc msgs = format_messages acc msgs'"
proof (induction msgs msgs' arbitrary: acc rule: list_all2_induct)
  case Nil
  show ?case by simp
next
  case (Cons msg msgs msg' msgs')
  have eq: "format_message msg = format_message msg'"
    using Cons.hyps(1) by (rule format_message_cong)
  show ?case
  proof (cases "format_message msg'")
    case (Inl e)
    then show ?thesis using eq by simp
  next
    case (Inr m)
    then show ?thesis using eq Cons.IH [of "acc @ [m]"] by simp
  qed
qed

lemma format_hello: "format_messages [] hello_batch = Inr hello_formatted"
  by (simp add: hello_batch_def hello_formatted_def format_message_def dict_item_def dict_get_def)

section \<open>Facts about every call\<close>

lemmas method_defs = create_user_def create_conversation_def add_message_def
  add_conversation_batch_def get_conversation_context_def get_user_conversations_def
  search_conversations_eq get_conversation_summary_def new_session_id_def
  requests_post_def requests_get_def requests_request_result

lemma run_call_db: "db (snd (run_call env c s)) = db s"
  by (cases c)
     (auto simp: method_defs Let_def split: prod.splits sum.splits option.splits json.splits)

lemma run_calls_db: "db (snd (run_calls env cs s)) = db s"
proof (induction cs arbitrary: s)
  case Nil
  show ?case by simp
next
  case (Cons c cs)
  obtain res s1 where step: "run_call env c s = (res, s1)"
    by (cases "run_call env c s")
  obtain rs s2 where rest: "run_calls env cs s1 = (rs, s2)"
    by (cases "run_calls env cs s1")
  have "db s2 = db s1"
    using Cons.IH [of s1] rest by simp
  moreover have "db s1 = db s"
    using run_call_db [of env c s] step by simp
  ultimately show ?case
    using step rest by simp
qed

lemma run_call_trace:
  "trace (snd (run_call env c s)) = trace s
   \<or> (\<exists>x. trace (snd (run_call env c s)) = trace s @ [x])"
  by (cases c)
     (auto simp: method_defs Let_def split: prod.splits sum.splits option.splits json.splits)

lemma run_call_http_error:
  assumes "run_call env c s = (res, s')" and "trace s' = trace s @ [(rq, Inr r)]"
    and "400 \<le> status_code r" and "status_code r < 600"
  shows "res = Inl (HTTPError r)"
  using assms
  by (cases c)
     (auto simp: method_defs Let_def raise_for_status_def
           split: prod.splits sum.splits option.splits json.splits if_splits)

lemma run_call_transport_error:
  assumes "run_call env c s = (res, s')" and "trace s' = trace s @ [(rq, Inl e)]"
  shows "res = Inl e"
  using assms
  by (cases c)
     (auto simp: method_defs Let_def raise_for_status_def
           split: prod.splits sum.splits option.splits json.splits if_splits)

lemma batch_messages_agree:
  "\<forall>x \<in> set (new_exchanges s (snd (add_conversation_batch env sid msgs s))).
     \<forall>m \<in> set (body_messages (fst x)). role_fields_agree m"
proof (cases "format_messages [] msgs")
  case (Inl e)
  then show ?thesis by (simp add: add_conversation_batch_snd)
next
  case (Inr fm)
  have "list_all role_fields_agree fm"
    using format_messages_agree [OF Inr] by simp
  then show ?thesis
    using Inr by (simp add: add_conversation_batch_snd list_all_iff)
qed

lemma run_call_messages_agree:
  "\<forall>x \<in> set (new_exchanges s (snd (run_call env c s))).
     \<forall>m \<in> set (body_messages (fst x)). role_fields_agree m"
proof (cases c)
  case (CreateUser user_id email first_name last_name metadata)
  then show ?thesis by (simp add: create_user_snd body_messages_def)
next
  case (CreateConversation user_id session_id metadata)
  have "snd (run_call env c s) = snd (create_conversation env user_id session_id metadata s)"
    using CreateConversation by (simp split: prod.splits sum.splits)
  then show ?thesis
    using create_conversation_new [of s env user_id session_id metadata]
    by (auto simp: body_messages_def)
next
  case (AddMessage session_id role content metadata)
  then show ?thesis by (simp add: add_message_snd role_fields_agree_def)
next
  case (AddConversationBatch session_id messages)
  then show ?thesis using batch_messages_agree [of s env session_id messages] by simp
next
  case (GetConversationContext session_id last_n)
  then show ?thesis
    by (simp add: get_conversation_context_snd body_messages_def split: sum.splits)
next
  case (GetUserConversations user_id)
  then show ?thesis by (simp add: get_user_conversations_snd body_messages_def)
next
  case (SearchConversations user_id query)
  then show ?thesis
    by (simp add: search_conversations_eq get_user_conversations_snd body_messages_def)
next
  case (GetConversationSummary session_id)
  have "new_exchanges s (snd (get_conversation_summary env session_id s)) =
        new_exchanges s (snd (get_conversation_context env session_id 10 s))"
    by (rule new_exchanges_cong) (simp_all add: get_conversation_summary_trace)
  then show ?thesis
    using GetConversationSummary
    by (simp add: get_conversation_context_snd body_messages_def split: sum.splits)
qed

section \<open>Results of single methods and evaluations of the doubles\<close>

lemma format_messages_pointwise:
  "format_messages acc msgs = Inr fm \<Longrightarrow>
     \<exists>ys. fm = acc @ ys \<and> list_all2 (\<lambda>msg m. format_message msg = Inr m) msgs ys"
proof (induction msgs arbitrary: acc)
  case Nil
  then show ?case by simp
next
  case (Cons msg msgs)
  from Cons.prems obtain m where m: "format_message msg = Inr m"
    and rest: "format_messages (acc @ [m]) msgs = Inr fm"
    by (cases "format_message msg") simp_all
  from Cons.IH [OF rest] obtain ys where
    "fm = (acc @ [m]) @ ys" and "list_all2 (\<lambda>msg m. format_message msg = Inr m) msgs ys"
    by blast
  then have "fm = acc @ (m # ys) \<and> list_all2 (\<lambda>msg m. format_message msg = Inr m) (msg # msgs) (m # ys)"
    using m by simp
  then show ?case by blast
qed

lemma format_messages_completes:
  "(\<exists>fm. format_messages acc msgs = Inr fm) \<longleftrightarrow>
     (\<forall>msg \<in> set msgs. map_of msg ''role'' \<noteq> None \<and> map_of msg ''content'' \<noteq> None)"
proof (induction msgs arbitrary: acc)
  case Nil
  show ?case by simp
next
  case (Cons msg msgs)
  show ?case
  proof (cases "format_message msg")
    case (Inl e)
    then have "\<not> (map_of msg ''role'' \<noteq> None \<and> map_of msg ''content'' \<noteq> None)"
      by (auto simp: format_message_def dict_item_def split: option.splits)
    then show ?thesis using Inl by auto
  next
    case (Inr m)
    then have "map_of msg ''role'' \<noteq> None \<and> map_of msg ''content'' \<noteq> None"
      unfolding format_message_Inr by auto
    then show ?thesis using Inr Cons.IH [of "acc @ [m]"] by simp
  qed
qed

lemma generated_id_example: "generated_id 0x0123456789abcdef0123456789abcdef = ''conv-01234567''"
  by code_simp

lemma generated_id_zero: "generated_id 0 = ''conv-00000000''"
  by code_simp

section \<open>Generated identifiers\<close>

text \<open>
  The identifier shows the first eight hexadecimal digits of the UUID, that is, the top
  thirty-two bits of the random bytes: the version and variant bits that \<^verbatim>\<open>uuid4\<close>
  overwrites lie below them.
\<close>

lemma hex_digit_inj: "a < 16 \<Longrightarrow> b < 16 \<Longrightarrow> hex_digit a = hex_digit b \<Longrightarrow> a = b"
proof -
  have d: "distinct ''0123456789abcdef''" by simp
  assume "a < 16" "b < 16" "hex_digit a = hex_digit b"
  then show "a = b"
    using nth_eq_iff_index_eq [OF d, of a b] by (simp add: hex_digit_def)
qed

lemma nibble_bound: "unat ((w :: 128 word) AND 0xf) < 16"
proof -
  have "w AND 0xf \<le> 0xf"
    by (rule word_and_le1)
  then have "unat (w AND 0xf) \<le> 15"
    by (simp add: word_le_nat_alt)
  then show ?thesis
    by simp
qed

lemma low_bits_only:
  fixes c :: "128 word"
  assumes "take_bit 80 c = c" and "bit c n"
  shows "n < 80"
  using assms by (metis bit_take_bit_iff)

lemma mask_bits:
  "bit (push_bit 48 (0xc000 :: 128 word)) n \<Longrightarrow> n < 80"
  "bit (push_bit 48 (0x8000 :: 128 word)) n \<Longrightarrow> n < 80"
  "bit (push_bit 64 (0xf000 :: 128 word)) n \<Longrightarrow> n < 80"
  "bit (push_bit 76 (4 :: 128 word)) n \<Longrightarrow> n < 80"
  by (erule low_bits_only [rotated], simp)+

lemma uuid4_int_high: "96 \<le> n \<Longrightarrow> bit (uuid4_int r) n = bit r n"
  unfolding uuid4_int_def bit_or_iff bit_and_iff bit_not_iff
  using mask_bits [of n] bit_imp_le_length [of r n] by fastforce

lemma take8: "take 8 (uuid_hex u) = map (\<lambda>i. hex_digit (unat (drop_bit (4 * (31 - i)) u AND 0xf))) [0..<8]"
  by (simp add: uuid_hex_def take_map)

lemma bit_nibble:
  "bit (drop_bit m u AND (0xf :: 128 word)) k \<longleftrightarrow> k < 4 \<and> bit u (m + k)"
proof -
  have m4: "(0xf :: 128 word) = mask 4"
    by (simp add: mask_eq_decr_exp)
  have "bit (drop_bit m u AND (mask 4 :: 128 word)) k \<longleftrightarrow> k < 4 \<and> bit u (m + k)"
    unfolding bit_and_iff bit_drop_bit_eq bit_mask_iff
    by (auto simp add: ac_simps dest: bit_imp_le_length)
  then show ?thesis
    unfolding m4 .
qed

lemma nibble_eq_iff:
  "(drop_bit m u AND (0xf :: 128 word)) = (drop_bit m v AND (0xf :: 128 word))
     \<longleftrightarrow> (\<forall>k<4. bit u (m + k) = bit v (m + k))"
proof
  assume eq: "(drop_bit m u AND (0xf :: 128 word)) = (drop_bit m v AND (0xf :: 128 word))"
  show "\<forall>k<4. bit u (m + k) = bit v (m + k)"
  proof (intro allI impI)
    fix k :: nat
    assume k: "k < 4"
    have "bit (drop_bit m u AND (0xf :: 128 word)) k = bit (drop_bit m v AND (0xf :: 128 word)) k"
      using eq by simp
    then show "bit u (m + k) = bit v (m + k)"
      using k by (simp add: bit_nibble)
  qed
next
  assume h: "\<forall>k<4. bit u (m + k) = bit v (m + k)"
  show "(drop_bit m u AND (0xf :: 128 word)) = (drop_bit m v AND (0xf :: 128 word))"
  proof (rule bit_eqI)
    fix k
    show "bit (drop_bit m u AND (0xf :: 128 word)) k = bit (drop_bit m v AND (0xf :: 128 word)) k"
      using h by (auto simp add: bit_nibble)
  qed
qed

lemma hex_nibble_eq_iff:
  "hex_digit (unat (drop_bit m u AND (0xf :: 128 word)))
     = hex_digit (unat (drop_bit m v AND (0xf :: 128 word)))
     \<longleftrightarrow> (\<forall>k<4. bit u (m + k) = bit v (m + k))"
proof -
  have "hex_digit (unat (drop_bit m u AND (0xf :: 128 word)))
        = hex_digit (unat (drop_bit m v AND (0xf :: 128 word)))
     \<longleftrightarrow> (drop_bit m u AND (0xf :: 128 word)) = (drop_bit m v AND (0xf :: 128 word))"
    using hex_digit_inj [OF nibble_bound nibble_bound, of "drop_bit m u" "drop_bit m v"]
    by (auto simp add: word_unat_eq_iff)
  then show ?thesis by (simp add: nibble_eq_iff)
qed

lemma take8_eq_iff:
  "take 8 (uuid_hex u) = take 8 (uuid_hex v) \<longleftrightarrow> (\<forall>n. 96 \<le> n \<and> n < 128 \<longrightarrow> bit u n = bit v n)"
proof -
  have "take 8 (uuid_hex u) = take 8 (uuid_hex v)
      \<longleftrightarrow> (\<forall>i<8. \<forall>k<4. bit u (4 * (31 - i) + k) = bit v (4 * (31 - i) + k))"
    by (auto simp add: take8 hex_nibble_eq_iff)
  also have "\<dots> \<longleftrightarrow> (\<forall>n. 96 \<le> n \<and> n < 128 \<longrightarrow> bit u n = bit v n)"
  proof
    assume h: "\<forall>i<8. \<forall>k<4. bit u (4 * (31 - i) + k) = bit v (4 * (31 - i) + k)"
    show "\<forall>n. 96 \<le> n \<and> n < 128 \<longrightarrow> bit u n = bit v n"
    proof (intro allI impI)
      fix n :: nat
      assume n: "96 \<le> n \<and> n < 128"
      have i: "31 - n div 4 < 8"
        using n by presburger
      have k: "n mod 4 < 4"
        by simp
      have e: "4 * (31 - (31 - n div 4)) + n mod 4 = n"
        using n by presburger
      from h i k have "bit u (4 * (31 - (31 - n div 4)) + n mod 4)
                     = bit v (4 * (31 - (31 - n div 4)) + n mod 4)"
        by blast
      then show "bit u n = bit v n"
        unfolding e .
    qed
  next
    assume h: "\<forall>n. 96 \<le> n \<and> n < 128 \<longrightarrow> bit u n = bit v n"
    show "\<forall>i<8. \<forall>k<4. bit u (4 * (31 - i) + k) = bit v (4 * (31 - i) + k)"
    proof (intro allI impI)
      fix i k :: nat
      assume "i < 8" "k < 4"
      then have "96 \<le> 4 * (31 - i) + k \<and> 4 * (31 - i) + k < 128"
        by arith
      then show "bit u (4 * (31 - i) + k) = bit v (4 * (31 - i) + k)"
        using h by blast
    qed
  qed
  finally show ?thesis .
qed

lemma high_bits_eq_iff:
  fixes r r' :: "128 word"
  shows "(\<forall>n. 96 \<le> n \<and> n < 128 \<longrightarrow> bit r n = bit r' n) \<longleftrightarrow> drop_bit 96 r = drop_bit 96 r'"
proof
  assume h: "\<forall>n. 96 \<le> n \<and> n < 128 \<longrightarrow> bit r n = bit r' n"
  show "drop_bit 96 r = drop_bit 96 r'"
  proof (rule bit_eqI)
    fix k
    show "bit (drop_bit 96 r) k = bit (drop_bit 96 r') k"
    proof (cases "96 + k < 128")
      case True
      then show ?thesis using h by (simp add: bit_drop_bit_eq ac_simps)
    next
      case False
      then have "\<not> bit r (96 + k)" "\<not> bit r' (96 + k)"
        by (auto dest: bit_imp_le_length)
      then show ?thesis by (simp add: bit_drop_bit_eq ac_simps)
    qed
  qed
next
  assume eq: "drop_bit 96 r = drop_bit 96 r'"
  show "\<forall>n. 96 \<le> n \<and> n < 128 \<longrightarrow> bit r n = bit r' n"
  proof (intro allI impI)
    fix n :: nat
    assume n: "96 \<le> n \<and> n < 128"
    have "bit (drop_bit 96 r) (n - 96) = bit (drop_bit 96 r') (n - 96)"
      using eq by simp
    then show "bit r n = bit r' n"
      using n by (simp add: bit_drop_bit_eq)
  qed
qed

lemma generated_id_eq_iff:
  "generated_id r = generated_id r' \<longleftrightarrow> drop_bit 96 r = drop_bit 96 r'"
proof -
  have "generated_id r = generated_id r'
      \<longleftrightarrow> (\<forall>n. 96 \<le> n \<and> n < 128 \<longrightarrow> bit r n = bit r' n)"
    by (simp add: generated_id_def take8_eq_iff uuid4_int_high)
  then show ?thesis
    by (simp only: high_bits_eq_iff)
qed

lemma generated_id_length: "length (generated_id r) = 13"
  by (simp add: generated_id_def uuid_hex_def)

lemma create_conversation_generated:
  assumes "session_id = None \<or> session_id = Some []"
    and "create_conversation env user_id session_id metadata s = (Inr sid, s')"
  shows "sid = generated_id (fst (urandom16 env (world s)))"
  using assms
  by (auto simp add: create_conversation_def new_session_id_def Let_def
      split: prod.splits sum.splits)

lemma create_conversation_tape:
  assumes "\<not> (400 \<le> status_code r \<and> status_code r < 600)"
  shows "\<exists>tr'. create_conversation (tape r) user_id None metadata \<lparr>db = d, world = b # bs, trace = tr\<rparr>
     = (Inr (generated_id b), \<lparr>db = d, world = bs, trace = tr'\<rparr>)"
  using assms
  by (simp add: create_conversation_def new_session_id_def Let_def requests_post_def
      requests_request_result raise_for_status_def tape_def)

lemma run_calls_tape:
  assumes "\<not> (400 \<le> status_code r \<and> status_code r < 600)"
  shows "fst (run_calls (tape r) (replicate (length rs) (CreateConversation user_id None metadata))
            \<lparr>db = d, world = rs, trace = tr\<rparr>)
         = map (\<lambda>b. Inr (JStr (generated_id b))) rs"
proof (induction rs arbitrary: tr)
  case Nil
  show ?case by simp
next
  case (Cons b bs)
  obtain tr' where step: "create_conversation (tape r) user_id None metadata
       \<lparr>db = d, world = b # bs, trace = tr\<rparr>
     = (Inr (generated_id b), \<lparr>db = d, world = bs, trace = tr'\<rparr>)"
    using create_conversation_tape [OF assms] by blast
  obtain rest s2 where rest: "run_calls (tape r)
       (replicate (length bs) (CreateConversation user_id None metadata))
       \<lparr>db = d, world = bs, trace = tr'\<rparr> = (rest, s2)"
    by (cases "run_calls (tape r)
       (replicate (length bs) (CreateConversation user_id None metadata))
       \<lparr>db = d, world = bs, trace = tr'\<rparr>")
  have "rest = map (\<lambda>b. Inr (JStr (generated_id b))) bs"
    using Cons.IH [of tr'] rest by simp
  then show ?case
    using step rest by simp
qed

text \<open>
  Counting: among the lists of \<open>n\<close> values of a finite type, those on which a function
  with fibres of at most \<open>F\<close> elements takes some value twice.
\<close>

lemma card_preimage_le:
  fixes f :: "'a::finite \<Rightarrow> 'b"
  assumes fib: "\<And>y. card {x. f x = y} \<le> F" and S: "finite S"
  shows "card {x. f x \<in> S} \<le> card S * F"
proof -
  have "{x. f x \<in> S} = (\<Union>y\<in>S. {x. f x = y})"
    by auto
  then have "card {x. f x \<in> S} \<le> (\<Sum>y\<in>S. card {x. f x = y})"
    using card_UN_le [OF S, of "\<lambda>y. {x. f x = y}"] by simp
  also have "\<dots> \<le> (\<Sum>y\<in>S. F)"
    by (rule sum_mono) (rule fib)
  finally show ?thesis by simp
qed

lemma finite_lists_of_length: "finite {xs :: 'a::finite list. length xs = n}"
  using finite_lists_length_eq [of "UNIV :: 'a set" n] by simp

lemma card_lists_of_length: "card {xs :: 'a::finite list. length xs = n} = CARD('a) ^ n"
  using card_lists_length_eq [of "UNIV :: 'a set" n] by simp

lemma count_collisions:
  fixes f :: "'a::finite \<Rightarrow> 'b"
  assumes fib: "\<And>y. card {x. f x = y} \<le> F"
  shows "card {xs. length xs = n \<and> \<not> distinct (map f xs)} \<le> (n choose 2) * F * CARD('a) ^ (n - 1)"
proof (induction n)
  case 0
  have e: "{xs. length xs = 0 \<and> \<not> distinct (map f xs)} = {}"
    by auto
  show ?case unfolding e by simp
next
  case (Suc n)
  let ?A = "{xs :: 'a list. length xs = n}"
  let ?B = "{xs. length xs = n \<and> \<not> distinct (map f xs)}"
  let ?C = "SIGMA xs : ?A. {x. f x \<in> f ` set xs}"
  let ?cons = "\<lambda>(xs, x). x # xs"
  have finA: "finite ?A"
    by (rule finite_lists_of_length)
  have finB: "finite ?B"
    by (rule finite_subset [OF _ finA]) auto
  have sub: "{xs. length xs = Suc n \<and> \<not> distinct (map f xs)} \<subseteq> ?cons ` (?B \<times> UNIV) \<union> ?cons ` ?C"
  proof
    fix ys
    assume "ys \<in> {xs. length xs = Suc n \<and> \<not> distinct (map f xs)}"
    then obtain x xs where ys: "ys = x # xs" and len: "length xs = n"
      and nd: "f x \<in> f ` set xs \<or> \<not> distinct (map f xs)"
      by (cases ys) auto
    from nd show "ys \<in> ?cons ` (?B \<times> UNIV) \<union> ?cons ` ?C"
    proof
      assume "f x \<in> f ` set xs"
      then have "(xs, x) \<in> ?C" using len by simp
      then have "?cons (xs, x) \<in> ?cons ` ?C" by (rule imageI)
      then show ?thesis using ys by simp
    next
      assume "\<not> distinct (map f xs)"
      then have "(xs, x) \<in> ?B \<times> UNIV" using len by simp
      then have "?cons (xs, x) \<in> ?cons ` (?B \<times> UNIV)" by (rule imageI)
      then show ?thesis using ys by simp
    qed
  qed
  have finC: "finite ?C"
    by (rule finite_SigmaI [OF finA]) simp
  have "card {xs. length xs = Suc n \<and> \<not> distinct (map f xs)}
      \<le> card (?cons ` (?B \<times> UNIV) \<union> ?cons ` ?C)"
    by (rule card_mono [OF _ sub]) (simp add: finB finC)
  also have "\<dots> \<le> card (?cons ` (?B \<times> UNIV)) + card (?cons ` ?C)"
    by (rule card_Un_le)
  also have "\<dots> \<le> card (?B \<times> (UNIV :: 'a set)) + card ?C"
    by (rule add_mono) (rule card_image_le, simp add: finB finC)+
  also have "card (?B \<times> (UNIV :: 'a set)) = card ?B * CARD('a)"
    by (simp add: card_cartesian_product)
  also have "card ?C = (\<Sum>xs\<in>?A. card {x. f x \<in> f ` set xs})"
    by (rule card_SigmaI [OF finA]) simp
  also have "\<dots> \<le> (\<Sum>xs\<in>?A. n * F)"
  proof (rule sum_mono)
    fix xs :: "'a list"
    assume "xs \<in> ?A"
    then have len: "length xs = n" by simp
    have "card {x. f x \<in> f ` set xs} \<le> card (f ` set xs) * F"
      by (rule card_preimage_le [OF fib]) simp
    also have "card (f ` set xs) \<le> n"
      using card_image_le [of "set xs" f] card_length [of xs] len by simp
    finally show "card {x. f x \<in> f ` set xs} \<le> n * F"
      by (simp add: mult_right_mono)
  qed
  also have "(\<Sum>xs\<in>?A. n * F) = CARD('a) ^ n * (n * F)"
    by (simp add: card_lists_of_length)
  finally have "card {xs. length xs = Suc n \<and> \<not> distinct (map f xs)}
      \<le> card ?B * CARD('a) + CARD('a) ^ n * (n * F)"
    by simp
  also have "card ?B * CARD('a) \<le> ((n choose 2) * F * CARD('a) ^ (n - 1)) * CARD('a)"
    using Suc.IH by (rule mult_right_mono) simp
  also have "((n choose 2) * F * CARD('a) ^ (n - 1)) * CARD('a) = (n choose 2) * F * CARD('a) ^ n"
  proof (cases n)
    case 0
    then show ?thesis by simp
  next
    case (Suc m)
    then show ?thesis by simp
  qed
  also have "(n choose 2) * F * CARD('a) ^ n + CARD('a) ^ n * (n * F)
      = (Suc n choose 2) * F * CARD('a) ^ (Suc n - 1)"
    by (simp add: numeral_2_eq_2 algebra_simps)
  finally show ?case by simp
qed

lemma generated_id_fibre: "card {r. generated_id r = y} \<le> 2 ^ 96"
proof (cases "{r. generated_id r = y} = {}")
  case True
  then show ?thesis by simp
next
  case False
  then obtain r0 where r0: "generated_id r0 = y" by auto
  let ?A = "{r. generated_id r = y}"
  let ?low = "\<lambda>r :: 128 word. (ucast r :: 96 word)"
  have inj: "inj_on ?low ?A"
  proof (rule inj_onI)
    fix a b
    assume "a \<in> ?A" "b \<in> ?A" and low: "?low a = ?low b"
    then have "generated_id a = generated_id b" by simp
    then have high: "drop_bit 96 a = drop_bit 96 b"
      by (simp add: generated_id_eq_iff)
    show "a = b"
    proof (rule bit_eqI)
      fix n
      show "bit a n = bit b n"
      proof (cases "n < 96")
        case True
        have "bit (?low a) n = bit (?low b) n" using low by simp
        then show ?thesis using True by (simp add: bit_ucast_iff)
      next
        case False
        have "bit (drop_bit 96 a) (n - 96) = bit (drop_bit 96 b) (n - 96)"
          using high by simp
        then show ?thesis using False by (simp add: bit_drop_bit_eq)
      qed
    qed
  qed
  have "card ?A = card (?low ` ?A)"
    using card_image [OF inj] by simp
  also have "\<dots> \<le> card (UNIV :: 96 word set)"
    by (rule card_mono) simp_all
  also have "\<dots> = 2 ^ 96"
    by (simp add: card_word)
  finally show ?thesis .
qed

lemma duplicate_ids_are_rare:
  "card {rs. length rs = n \<and> \<not> distinct (map generated_id rs)} * 2 ^ 32
     \<le> (n choose 2) * card {rs :: 128 word list. length rs = n}"
proof (cases n)
  case 0
  have e: "{rs :: 128 word list. length rs = 0 \<and> \<not> distinct (map generated_id rs)} = {}"
    by auto
  show ?thesis unfolding 0 e by simp
next
  case (Suc m)
  have "card {rs. length rs = n \<and> \<not> distinct (map generated_id rs)}
      \<le> (n choose 2) * 2 ^ 96 * CARD(128 word) ^ (n - 1)"
    by (rule count_collisions) (rule generated_id_fibre)
  then have "card {rs. length rs = n \<and> \<not> distinct (map generated_id rs)} * 2 ^ 32
      \<le> ((n choose 2) * 2 ^ 96 * CARD(128 word) ^ (n - 1)) * 2 ^ 32"
    by (rule mult_right_mono) simp
  also have "\<dots> = (n choose 2) * (CARD(128 word) ^ m * (2 ^ 96 * 2 ^ 32))"
    using Suc by (simp add: ac_simps)
  also have "(2 :: nat) ^ 96 * 2 ^ 32 = CARD(128 word)"
    by (simp add: card_word flip: power_add)
  also have "(n choose 2) * (CARD(128 word) ^ m * CARD(128 word)) = (n choose 2) * CARD(128 word) ^ n"
    using Suc by simp
  finally show ?thesis
    by (simp add: card_lists_of_length)
qed

lemma thousand_choose_two: "(1000 :: nat) choose 2 = 499500"
  by (simp add: choose_two)

lemma generated_id_example2: "generated_id 0xfedcba9876543210fedcba9876543210 = ''conv-fedcba98''"
  by code_simp

section \<open>Reading URLs and numbers\<close>

lemma split_on_absent: "c \<notin> set s \<Longrightarrow> split_on c s = (s, [])"
  by (induction s) (auto simp add: split_on_def)

lemma split_on_first: "c \<notin> set a \<Longrightarrow> split_on c (a @ c # b) = (a, b)"
  by (induction a) (auto simp add: split_on_def)

lemma split_all_absent: "c \<notin> set s \<Longrightarrow> split_all c s = [s]"
  by (induction s) auto

lemma split_all_first: "c \<notin> set a \<Longrightarrow> split_all c (a @ c # b) = a # split_all c b"
  by (induction a) auto

lemma digit_value_digit: "d < 10 \<Longrightarrow> digit_value (''0123456789'' ! d) = Some d"
proof -
  assume "d < 10"
  then have "d \<in> {0, 1, 2, 3, 4, 5, 6, 7, 8, 9}"
    by auto
  then show ?thesis
    by (elim insertE emptyE) (simp_all add: digit_value_def upt_rec)
qed

lemma digit_in_digits: "d < 10 \<Longrightarrow> ''0123456789'' ! d \<in> set ''0123456789''"
  by (rule nth_mem) simp

lemma str_nat_digits: "set (str_nat n) \<subseteq> set ''0123456789''"
proof (induction n rule: str_nat.induct)
  case (1 n)
  show ?case
  proof (cases "n < 10")
    case True
    then show ?thesis
      using digit_in_digits [of n] by (subst str_nat.simps) simp
  next
    case False
    have "n mod 10 < 10" by simp
    then show ?thesis
      using False 1 digit_in_digits [of "n mod 10"] by (subst str_nat.simps) simp
  qed
qed

lemma str_nat_nonempty: "str_nat n \<noteq> []"
  by (subst str_nat.simps) simp

lemma parse_digits_append:
  "parse_digits acc (a @ b) =
     (case parse_digits acc a of None \<Rightarrow> None | Some x \<Rightarrow> parse_digits x b)"
  by (induction a arbitrary: acc) (auto split: option.splits)

lemma parse_digits_str_nat:
  "parse_digits acc (str_nat n) = Some (acc * 10 ^ length (str_nat n) + n)"
proof (induction n arbitrary: acc rule: str_nat.induct)
  case (1 n)
  show ?case
  proof (cases "n < 10")
    case True
    then show ?thesis
      by (subst (1 2) str_nat.simps) (simp add: digit_value_digit)
  next
    case False
    have d: "digit_value (''0123456789'' ! (n mod 10)) = Some (n mod 10)"
      by (rule digit_value_digit) simp
    have "parse_digits acc (str_nat (n div 10) @ [''0123456789'' ! (n mod 10)])
        = Some (10 * (acc * 10 ^ length (str_nat (n div 10)) + n div 10) + n mod 10)"
      using False by (simp add: parse_digits_append 1 d)
    also have "10 * (acc * 10 ^ length (str_nat (n div 10)) + n div 10) + n mod 10
        = acc * 10 ^ length (str_nat (n div 10) @ [''0123456789'' ! (n mod 10)]) + n"
      by (simp add: algebra_simps)
    finally show ?thesis
      using False by (subst (1 2) str_nat.simps) simp
  qed
qed

lemma parse_nat_str_nat: "parse_nat (str_nat n) = Some n"
  by (simp add: parse_nat_def str_nat_nonempty parse_digits_str_nat)

lemma str_nat_short: "n < 10 ^ k \<Longrightarrow> 0 < k \<Longrightarrow> length (str_nat n) \<le> k"
proof (induction k arbitrary: n)
  case 0
  then show ?case by simp
next
  case (Suc k)
  show ?case
  proof (cases "n < 10")
    case True
    then show ?thesis by (subst str_nat.simps) simp
  next
    case False
    then have k: "0 < k"
      using Suc.prems(1) by (cases k) simp_all
    have "n div 10 < 10 ^ k"
      using Suc.prems(1) by (simp add: less_mult_imp_div_less mult.commute)
    then have "length (str_nat (n div 10)) \<le> k"
      using Suc.IH k by blast
    then show ?thesis
      using False by (subst str_nat.simps) simp
  qed
qed

lemma str_nat_long: "10 ^ k \<le> n \<Longrightarrow> k < length (str_nat n)"
proof (induction k arbitrary: n)
  case 0
  then show ?case using str_nat_nonempty [of n] by (cases "str_nat n") simp_all
next
  case (Suc k)
  have ge: "10 \<le> n"
  proof -
    have one: "(1 :: nat) \<le> 10 ^ k" by simp
    have "10 * 10 ^ k \<le> n" using Suc.prems by simp
    with one show ?thesis by linarith
  qed
  have "10 ^ k \<le> n div 10"
    using Suc.prems by (simp add: less_eq_div_iff_mult_less_eq mult.commute)
  then have "k < length (str_nat (n div 10))"
    by (rule Suc.IH)
  then show ?case
    using ge by (subst str_nat.simps) simp
qed

lemma plain_id_chars:
  assumes "plain_id sid"
  shows "CHR ''/'' \<notin> set sid" "CHR ''?'' \<notin> set sid" "CHR ''#'' \<notin> set sid"
  using assms by (auto simp add: plain_id_def)

lemma digits_chars:
  "CHR ''#'' \<notin> set (str_nat n)" "CHR ''?'' \<notin> set (str_nat n)"
  "CHR ''&'' \<notin> set (str_nat n)" "CHR ''='' \<notin> set (str_nat n)"
  using str_nat_digits [of n] by auto


lemma split_on_Nil [simp]: "split_on c [] = ([], [])"
  by (simp add: split_on_def)

lemma split_on_Cons:
  "split_on c (x # xs) =
     (if x = c then ([], xs) else (case split_on c xs of (a, b) \<Rightarrow> (x # a, b)))"
  by (simp add: split_on_def)

lemma split_on_append:
  "c \<notin> set a \<Longrightarrow> split_on c (a @ b) = (case split_on c b of (x, y) \<Rightarrow> (a @ x, y))"
  by (induction a) (auto simp add: split_on_Cons split: prod.splits)

lemma split_all_nonempty [simp]: "split_all c s \<noteq> []"
  by (induction s) (auto split: list.splits)

lemma split_all_append:
  "c \<notin> set a \<Longrightarrow>
     split_all c (a @ b) = (case split_all c b of [] \<Rightarrow> [a] | y # ys \<Rightarrow> (a @ y) # ys)"
  by (induction a) (auto split: list.splits)

lemma memory_route_memory:
  assumes "plain_id sid"
  shows "memory_route mount (mount @ ''/sessions/'' @ sid @ ''/memory'') = Some (sid, [])"
  using plain_id_chars [OF assms]
  by (simp add: memory_route_def split_on_Cons split_on_append split_all_append)

lemma memory_route_lastn:
  assumes "plain_id sid"
  shows "memory_route mount (mount @ ''/sessions/'' @ sid @ ''/memory?lastn='' @ str_nat n)
           = Some (sid, ''lastn='' @ str_nat n)"
  using plain_id_chars [OF assms] digits_chars [of n]
  by (simp add: memory_route_def split_on_Cons split_on_append split_on_absent split_all_append)

lemma query_param_lastn: "query_param (''lastn='' @ str_nat n) ''lastn'' = Some (str_nat n)"
  using digits_chars [of n]
  by (simp add: query_param_def split_all_absent split_on_Cons split_on_absent)

section \<open>The client against the service of the specification\<close>

lemma max_str_digits_pos: "0 < max_str_digits"
  by (simp add: max_str_digits_def)

lemma str_int_within:
  assumes "0 \<le> i" and "i < 10 ^ max_str_digits"
  shows "str_int i = Inr (str_nat (nat i))"
proof -
  have "int (nat i) < int (10 ^ max_str_digits)"
    using assms by simp
  then have "nat i < 10 ^ max_str_digits"
    by (simp only: of_nat_less_iff)
  then have "length (str_nat (nat i)) \<le> max_str_digits"
    using max_str_digits_pos by (rule str_nat_short)
  then show ?thesis
    using assms(1) by (simp add: str_int_def Let_def)
qed

lemma str_int_beyond:
  assumes "10 ^ max_str_digits \<le> i"
  shows "str_int i = Inl ValueError"
proof -
  have pos: "0 \<le> i"
    using assms by (rule order_trans [rotated]) simp
  have "int (10 ^ max_str_digits) \<le> int (nat i)"
    using assms pos by simp
  then have "10 ^ max_str_digits \<le> nat i"
    by (simp only: of_nat_le_iff)
  then have "max_str_digits < length (str_nat (nat i))"
    by (rule str_nat_long)
  then show ?thesis
    using pos by (simp add: str_int_def Let_def)
qed

lemma str_int_nonneg:
  assumes "0 \<le> i" and "str_int i = Inr d"
  shows "d = str_nat (nat i)"
  using assms by (auto simp add: str_int_def Let_def split: if_splits)

lemma below_ten_within: "i < 10 \<Longrightarrow> (i :: int) < 10 ^ max_str_digits"
proof -
  assume "i < 10"
  moreover have "(10 :: int) \<le> 10 ^ max_str_digits"
    using self_le_power [of "10 :: int" max_str_digits] max_str_digits_pos by simp
  ultimately show ?thesis by linarith
qed

lemma last_messages_length: "length (last_messages n ms) \<le> n"
  by (simp add: last_messages_def)

lemma last_messages_append:
  "length new \<le> n \<Longrightarrow>
     last_messages n (old @ new) = last_messages (n - length new) old @ new"
  by (simp add: last_messages_def)

lemma service_post:
  assumes "plain_id sid" and "map_of (stored \<sigma>) sid = Some old"
  shows "service mount
           \<lparr>verb = ''POST'', url = mount @ ''/sessions/'' @ sid @ ''/memory'',
            req_headers = h, json_arg = Some (JObj [(''messages'', JList new)])\<rparr> \<sigma>
         = (Inr (answer 200 (JStr ''OK'')),
            \<sigma>\<lparr>stored := AList.update sid (old @ new) (stored \<sigma>)\<rparr>)"
  using assms(2) memory_route_memory [OF assms(1), of mount, simplified]
  by (simp add: service_def)

lemma service_get:
  assumes "plain_id sid"
  shows "service mount
           \<lparr>verb = ''GET'', url = mount @ ''/sessions/'' @ sid @ ''/memory?lastn='' @ str_nat n,
            req_headers = h, json_arg = None\<rparr> \<sigma>
         = (case map_of (stored \<sigma>) sid of
              None \<Rightarrow> (Inr (answer 404 (JStr ''not found'')), \<sigma>)
            | Some ms \<Rightarrow>
                (Inr (answer 200 (JObj [(''messages'', JList (last_messages n ms)),
                                        (''relevant_facts'', JList (facts \<sigma> sid))])), \<sigma>))"
  using memory_route_lastn [OF assms, of mount n, simplified]
    query_param_lastn [of n, simplified]
  by (simp add: service_def parse_nat_str_nat split: option.splits)

lemma batch_against_service:
  assumes "plain_id sid" and "transport env = service (base_url (db s))"
    and "map_of (stored (world s)) sid = Some old"
    and "format_messages [] messages = Inr fm"
  shows "add_conversation_batch env sid messages s =
     (Inr (JStr ''OK''),
      s\<lparr>world := (world s)\<lparr>stored := AList.update sid (old @ fm) (stored (world s))\<rparr>,
        trace := trace s @
          [(\<lparr>verb = ''POST'', url = base_url (db s) @ ''/sessions/'' @ sid @ ''/memory'',
             req_headers = headers (db s),
             json_arg = Some (JObj [(''messages'', JList fm)])\<rparr>,
            Inr (answer 200 (JStr ''OK'')))]\<rparr>)"
  using assms(2,4) service_post [OF assms(1,3), simplified]
  by (simp add: add_conversation_batch_def Let_def requests_post_def requests_request_def
      raise_for_status_def response_json_def answer_def)

lemma context_against_service:
  assumes "plain_id sid" and "transport env = service (base_url (db s))"
    and "0 \<le> k" and "str_int k = Inr d"
  shows "get_conversation_context env sid k s =
     (case map_of (stored (world s)) sid of
        None \<Rightarrow>
          (Inl (HTTPError (answer 404 (JStr ''not found''))),
           s\<lparr>trace := trace s @
              [(\<lparr>verb = ''GET'',
                 url = base_url (db s) @ ''/sessions/'' @ sid @ ''/memory?lastn='' @ d,
                 req_headers = headers (db s), json_arg = None\<rparr>,
                Inr (answer 404 (JStr ''not found'')))]\<rparr>)
      | Some ms \<Rightarrow>
          (Inr (JObj [(''messages'', JList (last_messages (nat k) ms)),
                      (''relevant_facts'', JList (facts (world s) sid))]),
           s\<lparr>trace := trace s @
              [(\<lparr>verb = ''GET'',
                 url = base_url (db s) @ ''/sessions/'' @ sid @ ''/memory?lastn='' @ d,
                 req_headers = headers (db s), json_arg = None\<rparr>,
                Inr (answer 200 (JObj [(''messages'', JList (last_messages (nat k) ms)),
                                       (''relevant_facts'', JList (facts (world s) sid))])))]\<rparr>))"
proof -
  have d: "d = str_nat (nat k)"
    using assms(3,4) by (rule str_int_nonneg)
  show ?thesis
    using assms(2,4) service_get [OF assms(1), simplified]
    by (simp add: get_conversation_context_def d requests_get_def requests_request_def
        raise_for_status_def response_json_def answer_def split: option.splits)
qed

lemma zep_serves: "transport zep = service (base_url (db (holding ms)))"
  by (simp add: zep_def holding_def init_def)

lemma holding_s1: "map_of (stored (world (holding ms))) ''s1'' = Some ms"
  by (simp add: holding_def)

lemma plain_s1: "plain_id ''s1''"
  by (simp add: plain_id_def)

lemma format_message_roles:
  assumes "format_message msg = Inr m"
  shows "\<exists>role. map_of msg ''role'' = Some role \<and> entry_field m ''role'' = Some role
           \<and> entry_field m ''role_type'' = Some role"
  using assms unfolding format_message_Inr by (auto simp add: entry_field_def)

section \<open>The claims\<close>

text \<open>
  C1, as the code has it. When every message of the batch has a \<^verbatim>\<open>role\<close> and a
  \<^verbatim>\<open>content\<close> (the loop completes), \<^verbatim>\<open>add_conversation_batch\<close> makes exactly one
  request, a POST to the session's memory path, whose \<^verbatim>\<open>messages\<close> array has one entry
  per caller message, the i-th entry built from the i-th message. Against the service of
  the specification, for a session it holds under a plain identifier, a later
  \<^verbatim>\<open>get_conversation_context\<close> whose \<^verbatim>\<open>last_n\<close> is at least the size of the batch
  and has at most 4300 decimal digits returns the entries of the batch in that order, after
  as many older messages as still fit.
\<close>

theorem batch_request_keeps_order:
  assumes "format_messages [] messages = Inr fm"
  shows "length fm = length messages
   \<and> (\<forall>i<length messages. format_message (messages ! i) = Inr (fm ! i))
   \<and> (\<exists>res. new_exchanges s (snd (add_conversation_batch env session_id messages s)) =
         [(\<lparr>verb = ''POST'', url = base_url (db s) @ ''/sessions/'' @ session_id @ ''/memory'',
            req_headers = headers (db s),
            json_arg = Some (JObj [(''messages'', JList fm)])\<rparr>, res)])
   \<and> (plain_id session_id \<and> transport zenv = service (base_url (db zs))
        \<and> map_of (stored (world zs)) session_id = Some old
        \<and> int (length messages) \<le> last_n \<and> last_n < 10 ^ max_str_digits
      \<longrightarrow> fst (get_conversation_context zenv session_id last_n
                 (snd (add_conversation_batch zenv session_id messages zs)))
            = Inr (JObj [(''messages'',
                          JList (last_messages (nat last_n - length fm) old @ fm)),
                         (''relevant_facts'', JList (facts (world zs) session_id))]))"
proof -
  from format_messages_pointwise [OF assms]
  have pw: "list_all2 (\<lambda>msg m. format_message msg = Inr m) messages fm"
    by simp
  have len: "length fm = length messages"
    using pw by (simp add: list_all2_lengthD)
  have nth: "\<forall>i<length messages. format_message (messages ! i) = Inr (fm ! i)"
    using pw by (simp add: list_all2_conv_all_nth)
  have sent: "\<exists>res. new_exchanges s (snd (add_conversation_batch env session_id messages s)) =
         [(\<lparr>verb = ''POST'', url = base_url (db s) @ ''/sessions/'' @ session_id @ ''/memory'',
            req_headers = headers (db s),
            json_arg = Some (JObj [(''messages'', JList fm)])\<rparr>, res)]"
    using assms by (simp add: add_conversation_batch_snd)
  have round: "fst (get_conversation_context zenv session_id last_n
                 (snd (add_conversation_batch zenv session_id messages zs)))
            = Inr (JObj [(''messages'',
                          JList (last_messages (nat last_n - length fm) old @ fm)),
                         (''relevant_facts'', JList (facts (world zs) session_id))])"
    if plain: "plain_id session_id" and svc: "transport zenv = service (base_url (db zs))"
      and held: "map_of (stored (world zs)) session_id = Some old"
      and enough: "int (length messages) \<le> last_n" and short: "last_n < 10 ^ max_str_digits"
  proof -
    let ?s1 = "snd (add_conversation_batch zenv session_id messages zs)"
    have s1: "?s1 = zs\<lparr>world := (world zs)\<lparr>stored := AList.update session_id (old @ fm) (stored (world zs))\<rparr>,
        trace := trace zs @
          [(\<lparr>verb = ''POST'', url = base_url (db zs) @ ''/sessions/'' @ session_id @ ''/memory'',
             req_headers = headers (db zs),
             json_arg = Some (JObj [(''messages'', JList fm)])\<rparr>,
            Inr (answer 200 (JStr ''OK'')))]\<rparr>"
      using batch_against_service [OF plain svc held assms] by simp
    have nonneg: "0 \<le> last_n"
      using enough by linarith
    have digits: "str_int last_n = Inr (str_nat (nat last_n))"
      using nonneg short by (rule str_int_within)
    have svc1: "transport zenv = service (base_url (db ?s1))"
      using svc by (simp add: s1)
    have held1: "map_of (stored (world ?s1)) session_id = Some (old @ fm)"
      by (simp add: s1 update_conv')
    have facts1: "facts (world ?s1) session_id = facts (world zs) session_id"
      by (simp add: s1)
    have "length fm \<le> nat last_n"
      using enough len by linarith
    then have suffix: "last_messages (nat last_n) (old @ fm)
        = last_messages (nat last_n - length fm) old @ fm"
      by (rule last_messages_append)
    show ?thesis
      using context_against_service [OF plain svc1 nonneg digits] held1 facts1 suffix
      by simp
  qed
  show ?thesis
    using len nth sent round by blast
qed

theorem batch_request_keeps_order_witness:
  "format_messages [] hello_batch = Inr hello_formatted
   \<and> length hello_formatted = length hello_batch
   \<and> format_message (hello_batch ! 0) = Inr (hello_formatted ! 0)
   \<and> format_message (hello_batch ! 1) = Inr (hello_formatted ! 1)
   \<and> new_exchanges (holding []) (snd (add_conversation_batch zep ''s1'' hello_batch (holding []))) =
       [(\<lparr>verb = ''POST'', url = ''http://localhost:8000/api/v2/sessions/s1/memory'',
          req_headers = headers (db (holding [])),
          json_arg = Some (JObj [(''messages'', JList hello_formatted)])\<rparr>,
         Inr (answer 200 (JStr ''OK'')))]
   \<and> int (length hello_batch) \<le> 2 \<and> (2 :: int) < 10 ^ max_str_digits
   \<and> fst (get_conversation_context zep ''s1'' 2
          (snd (add_conversation_batch zep ''s1'' hello_batch (holding []))))
       = Inr (JObj [(''messages'', JList hello_formatted), (''relevant_facts'', JList [])])"
proof -
  note inst = batch_request_keeps_order [OF format_hello, where s = "holding []" and env = zep
      and session_id = "''s1''" and zenv = zep and zs = "holding []" and old = "[]"
      and last_n = 2]
  have len: "length hello_formatted = length hello_batch"
    using inst by blast
  have nth: "\<forall>i<length hello_batch. format_message (hello_batch ! i) = Inr (hello_formatted ! i)"
    using inst by blast
  have n0: "format_message (hello_batch ! 0) = Inr (hello_formatted ! 0)"
    and n1: "format_message (hello_batch ! 1) = Inr (hello_formatted ! 1)"
    using nth [rule_format, of 0] nth [rule_format, of 1] by (simp_all add: hello_batch_def)
  have new: "new_exchanges (holding []) (snd (add_conversation_batch zep ''s1'' hello_batch (holding []))) =
       [(\<lparr>verb = ''POST'', url = ''http://localhost:8000/api/v2/sessions/s1/memory'',
          req_headers = headers (db (holding [])),
          json_arg = Some (JObj [(''messages'', JList hello_formatted)])\<rparr>,
         Inr (answer 200 (JStr ''OK'')))]"
    unfolding batch_against_service [OF plain_s1 zep_serves holding_s1 format_hello]
    by (simp add: new_exchanges_def holding_def init_def default_base_url_def)
  have enough: "int (length hello_batch) \<le> 2"
    by (simp add: hello_batch_def)
  have short: "(2 :: int) < 10 ^ max_str_digits"
    by (rule below_ten_within) simp
  have "fst (get_conversation_context zep ''s1'' 2
          (snd (add_conversation_batch zep ''s1'' hello_batch (holding []))))
       = Inr (JObj [(''messages'', JList (last_messages (nat 2 - length hello_formatted) [] @ hello_formatted)),
                    (''relevant_facts'', JList (facts (world (holding [])) ''s1''))])"
    using inst plain_s1 zep_serves [of "[]"] holding_s1 [of "[]"] enough short by blast
  then have returned: "fst (get_conversation_context zep ''s1'' 2
          (snd (add_conversation_batch zep ''s1'' hello_batch (holding []))))
       = Inr (JObj [(''messages'', JList hello_formatted), (''relevant_facts'', JList [])])"
    by (simp add: last_messages_def holding_def)
  show ?thesis
    using format_hello len n0 n1 new enough short returned by blast
qed

text \<open>
  C1 as stated fails for a \<^verbatim>\<open>last_n\<close> of more than 4300 digits: the batch is stored,
  the f-string of the later \<^verbatim>\<open>get_conversation_context\<close> raises \<^verbatim>\<open>ValueError\<close>, no
  request is made and nothing is returned. It also fails for an identifier that is not
  plain: \<^verbatim>\<open>s1/memory?lastn=1&x=\<close> goes into the URL unquoted, the service reads
  \<^verbatim>\<open>lastn=1\<close>, and with \<^verbatim>\<open>last_n=2\<close> only the last of the two messages comes back.
\<close>

theorem huge_last_n_returns_nothing:
  "fst (add_conversation_batch zep ''s1'' hello_batch (holding [])) = Inr (JStr ''OK'')
   \<and> int (length hello_batch) \<le> 10 ^ max_str_digits
   \<and> get_conversation_context zep ''s1'' (10 ^ max_str_digits)
        (snd (add_conversation_batch zep ''s1'' hello_batch (holding [])))
       = (Inl ValueError, snd (add_conversation_batch zep ''s1'' hello_batch (holding [])))
   \<and> fst (add_conversation_batch zep ''s1/memory?lastn=1&x='' hello_batch (holding []))
       = Inr (JStr ''OK'')
   \<and> fst (get_conversation_context zep ''s1/memory?lastn=1&x='' 2
          (snd (add_conversation_batch zep ''s1/memory?lastn=1&x='' hello_batch (holding []))))
       = Inr (JObj [(''messages'', JList [hello_formatted ! 1]), (''relevant_facts'', JList [])])"
proof -
  have added: "fst (add_conversation_batch zep ''s1'' hello_batch (holding [])) = Inr (JStr ''OK'')"
    using batch_against_service [OF plain_s1 zep_serves holding_s1 format_hello] by simp
  have "(2 :: int) < 10 ^ max_str_digits"
    by (rule below_ten_within) simp
  then have enough: "int (length hello_batch) \<le> 10 ^ max_str_digits"
    by (simp add: hello_batch_def)
  have raised: "get_conversation_context zep ''s1'' (10 ^ max_str_digits)
        (snd (add_conversation_batch zep ''s1'' hello_batch (holding [])))
       = (Inl ValueError, snd (add_conversation_batch zep ''s1'' hello_batch (holding [])))"
    by (simp add: get_conversation_context_def str_int_beyond)
  have "fst (add_conversation_batch zep ''s1/memory?lastn=1&x='' hello_batch (holding []))
       = Inr (JStr ''OK'')
   \<and> fst (get_conversation_context zep ''s1/memory?lastn=1&x='' 2
          (snd (add_conversation_batch zep ''s1/memory?lastn=1&x='' hello_batch (holding []))))
       = Inr (JObj [(''messages'', JList [hello_formatted ! 1]), (''relevant_facts'', JList [])])"
    by code_simp
  then show ?thesis
    using added enough raised by blast
qed

text \<open>
  C2, as the code has it. Every call makes at most one exchange with the transport (no
  retry). When the response has a status from 400 to 599, the call raises
  \<^verbatim>\<open>HTTPError\<close> carrying that response, with its status code and body; when the
  transport raises, the call raises the same exception. Nothing is caught.
\<close>

theorem error_statuses_raise_HTTPError:
  assumes "run_call env c s = (res, s')"
  shows "(trace s' = trace s \<or> (\<exists>x. trace s' = trace s @ [x]))
       \<and> (\<forall>rq r. trace s' = trace s @ [(rq, Inr r)] \<and> 400 \<le> status_code r \<and> status_code r < 600
             \<longrightarrow> res = Inl (HTTPError r))
       \<and> (\<forall>rq e. trace s' = trace s @ [(rq, Inl e)] \<longrightarrow> res = Inl e)"
proof (intro conjI allI impI)
  show "trace s' = trace s \<or> (\<exists>x. trace s' = trace s @ [x])"
    using run_call_trace [of env c s] assms by simp
next
  fix rq r
  assume "trace s' = trace s @ [(rq, Inr r)] \<and> 400 \<le> status_code r \<and> status_code r < 600"
  then show "res = Inl (HTTPError r)"
    using run_call_http_error [OF assms] by blast
next
  fix rq e
  assume "trace s' = trace s @ [(rq, Inl e)]"
  then show "res = Inl e"
    using run_call_transport_error [OF assms] by blast
qed

theorem error_statuses_raise_HTTPError_witness:
  "run_call (canned not_found 0) (GetUserConversations ''u1'') fresh =
     (Inl (HTTPError not_found),
      fresh\<lparr>trace := [(\<lparr>verb = ''GET'', url = ''http://localhost:8000/api/v2/users/u1/sessions'',
                          req_headers = headers (db fresh), json_arg = None\<rparr>, Inr not_found)]\<rparr>)
   \<and> status_code not_found = 404
   \<and> run_call down (AddMessage ''s1'' ''user'' ''hello'' None) fresh =
     (Inl (RequestException ''connection refused''),
      fresh\<lparr>trace := [(\<lparr>verb = ''POST'', url = ''http://localhost:8000/api/v2/sessions/s1/memory'',
                          req_headers = headers (db fresh),
                          json_arg = Some (JObj [(''messages'', JList [JObj
                            [(''role'', JStr ''user''), (''role_type'', JStr ''user''),
                             (''content'', JStr ''hello''), (''metadata'', JObj [])]])])\<rparr>,
                         Inl (RequestException ''connection refused''))]\<rparr>)"
proof -
  let ?env = "canned not_found 0"
  let ?c = "GetUserConversations ''u1''"
  let ?rq = "\<lparr>verb = ''GET'', url = ''http://localhost:8000/api/v2/users/u1/sessions'',
              req_headers = headers (db fresh), json_arg = None\<rparr>"
  obtain res s' where run: "run_call ?env ?c fresh = (res, s')"
    by (cases "run_call ?env ?c fresh")
  have st: "s' = fresh\<lparr>trace := [(?rq, Inr not_found)]\<rparr>"
    using run by (simp add: get_user_conversations_def requests_get_def requests_request_result
        double_defs split: prod.splits sum.splits)
  have tr: "trace s' = trace fresh @ [(?rq, Inr not_found)]"
    by (simp add: st fresh_def)
  have code: "400 \<le> status_code not_found \<and> status_code not_found < 600"
    by (simp add: not_found_def)
  have "res = Inl (HTTPError not_found)"
    using error_statuses_raise_HTTPError [OF run] tr code by blast
  then have first: "run_call ?env ?c fresh = (Inl (HTTPError not_found), fresh\<lparr>trace := [(?rq, Inr not_found)]\<rparr>)"
    using run st by simp
  let ?c2 = "AddMessage ''s1'' ''user'' ''hello'' None"
  let ?rq2 = "\<lparr>verb = ''POST'', url = ''http://localhost:8000/api/v2/sessions/s1/memory'',
                          req_headers = headers (db fresh),
                          json_arg = Some (JObj [(''messages'', JList [JObj
                            [(''role'', JStr ''user''), (''role_type'', JStr ''user''),
                             (''content'', JStr ''hello''), (''metadata'', JObj [])]])])\<rparr>"
  obtain res2 s2 where run2: "run_call down ?c2 fresh = (res2, s2)"
    by (cases "run_call down ?c2 fresh")
  have st2: "s2 = fresh\<lparr>trace := [(?rq2, Inl (RequestException ''connection refused''))]\<rparr>"
    using run2 by (simp add: add_message_def requests_post_def requests_request_result
        double_defs or_empty_def split: prod.splits sum.splits)
  have tr2: "trace s2 = trace fresh @ [(?rq2, Inl (RequestException ''connection refused''))]"
    by (simp add: st2 fresh_def)
  have "res2 = Inl (RequestException ''connection refused'')"
    using error_statuses_raise_HTTPError [OF run2] tr2 by blast
  then have second: "run_call down ?c2 fresh = (Inl (RequestException ''connection refused''),
      fresh\<lparr>trace := [(?rq2, Inl (RequestException ''connection refused''))]\<rparr>)"
    using run2 st2 by simp
  show ?thesis
    using first second by (simp add: not_found_def)
qed

text \<open>
  C2 as stated fails: \<^verbatim>\<open>raise_for_status\<close> lets a status below 400 pass, so a 304
  answer is returned to the caller as a normal value.
\<close>

theorem non_2xx_status_returns_normally:
  "status_code (reply 304 (JList [])) = 304
   \<and> fst (run_call (canned (reply 304 (JList [])) 0) (GetUserConversations ''u1'') fresh)
       = Inr (JList [])
   \<and> fst (run_call (canned (reply 304 (JList [])) 0) (CreateConversation ''u1'' (Some ''s1'') None) fresh)
       = Inr (JStr ''s1'')"
  by (simp add: get_user_conversations_def create_conversation_def requests_get_def
      requests_post_def requests_request_result raise_for_status_def response_json_def
      double_defs)

text \<open>
  C3. \<^verbatim>\<open>search_conversations(user_id, query)\<close> is \<^verbatim>\<open>get_user_conversations(user_id)\<close>:
  for every environment and state it makes the same exchange, returns the same result and
  leaves the same state, so two runs that differ only in the query cannot be told apart.
\<close>

theorem search_conversations_ignores_query:
  "search_conversations env user_id query s = get_user_conversations env user_id s
   \<and> search_conversations env user_id query s = search_conversations env user_id query' s"
  by (simp add: search_conversations_eq)

text \<open>
  C4. \<^verbatim>\<open>add_message(session_id, role, content, metadata)\<close> does what the delegation to
  \<^verbatim>\<open>add_conversation_batch\<close> with the one-element batch would do: the same request
  (same URL, same one-element messages body) is logged, and the same result and state are
  returned. The one message is \<^verbatim>\<open>{role, content, metadata?}\<close>, with no
  \<^verbatim>\<open>metadata\<close> key when the caller gives none. The method does not call
  \<^verbatim>\<open>add_conversation_batch\<close>; it builds the same body itself.
\<close>

theorem add_message_is_one_element_batch:
  "add_message env session_id role content metadata s =
     spec_add_message env session_id role content metadata s"
  by (simp add: add_message_def spec_add_message_def add_conversation_batch_def
      format_message_spec_message)

text \<open>
  C5, as the code has it. The identifier is settled before the request: a non-empty
  \<^verbatim>\<open>session_id\<close> of the caller is used as it is; when \<^verbatim>\<open>session_id\<close> is omitted
  or is the empty string, one is generated from sixteen random bytes. Whatever response
  the service gives to the request carrying that identifier, as long as
  \<^verbatim>\<open>raise_for_status\<close> lets it pass, the method returns that identifier; the payload
  is not read.
\<close>

theorem create_conversation_returns_id_used:
  assumes "(session_id = Some sid \<and> sid \<noteq> [] \<and> s0 = s)
           \<or> ((session_id = None \<or> session_id = Some []) \<and> new_session_id env s = (sid, s0))"
    and "transport env \<lparr>verb = ''POST'', url = base_url (db s) @ ''/sessions'',
             req_headers = headers (db s),
             json_arg = Some (JObj [(''user_id'', JStr user_id), (''session_id'', JStr sid),
                                    (''metadata'', JObj (or_empty metadata))])\<rparr> (world s0)
           = (Inr r, w')"
    and "\<not> (400 \<le> status_code r \<and> status_code r < 600)"
  shows "create_conversation env user_id session_id metadata s =
     (Inr sid,
      s0\<lparr>world := w',
         trace := trace s @ [(\<lparr>verb = ''POST'', url = base_url (db s) @ ''/sessions'',
             req_headers = headers (db s),
             json_arg = Some (JObj [(''user_id'', JStr user_id), (''session_id'', JStr sid),
                                    (''metadata'', JObj (or_empty metadata))])\<rparr>, Inr r)]\<rparr>)
   \<and> new_session_id env s =
       (generated_id (fst (urandom16 env (world s))), s\<lparr>world := snd (urandom16 env (world s))\<rparr>)"
proof -
  have keeps: "trace s0 = trace s \<and> db s0 = db s"
    using assms(1) by (auto dest: new_session_id_keeps)
  have chosen: "(case session_id of None \<Rightarrow> new_session_id env s
      | Some x \<Rightarrow> (if x = [] then new_session_id env s else (x, s))) = (sid, s0)"
    using assms(1) by auto
  have "create_conversation env user_id session_id metadata s =
     (Inr sid,
      s0\<lparr>world := w',
         trace := trace s @ [(\<lparr>verb = ''POST'', url = base_url (db s) @ ''/sessions'',
             req_headers = headers (db s),
             json_arg = Some (JObj [(''user_id'', JStr user_id), (''session_id'', JStr sid),
                                    (''metadata'', JObj (or_empty metadata))])\<rparr>, Inr r)]\<rparr>)"
    unfolding create_conversation_def chosen
    using assms(2,3) keeps
    by (auto simp add: Let_def requests_post_def requests_request_result raise_for_status_def)
  moreover have "new_session_id env s =
       (generated_id (fst (urandom16 env (world s))), s\<lparr>world := snd (urandom16 env (world s))\<rparr>)"
    by (simp add: new_session_id_def split: prod.splits)
  ultimately show ?thesis by blast
qed

theorem create_conversation_returns_id_used_witness:
  "create_conversation (canned (reply 201 (JStr ''ignored'')) 0x0123456789abcdef0123456789abcdef)
      ''u1'' None None fresh =
     (Inr ''conv-01234567'',
      fresh\<lparr>trace := [(\<lparr>verb = ''POST'', url = ''http://localhost:8000/api/v2/sessions'',
             req_headers = headers (db fresh),
             json_arg = Some (JObj [(''user_id'', JStr ''u1''), (''session_id'', JStr ''conv-01234567''),
                                    (''metadata'', JObj [])])\<rparr>, Inr (reply 201 (JStr ''ignored'')))]\<rparr>)
   \<and> create_conversation (canned (reply 201 (JStr ''ignored'')) 0) ''u1'' (Some ''s1'') None fresh =
     (Inr ''s1'',
      fresh\<lparr>trace := [(\<lparr>verb = ''POST'', url = ''http://localhost:8000/api/v2/sessions'',
             req_headers = headers (db fresh),
             json_arg = Some (JObj [(''user_id'', JStr ''u1''), (''session_id'', JStr ''s1''),
                                    (''metadata'', JObj [])])\<rparr>, Inr (reply 201 (JStr ''ignored'')))]\<rparr>)"
proof -
  let ?r = "reply 201 (JStr ''ignored'')"
  let ?env = "canned ?r 0x0123456789abcdef0123456789abcdef"
  have gen: "new_session_id ?env fresh = (''conv-01234567'', fresh)"
    by (simp add: new_session_id_def generated_id_example canned_def fresh_def)
  have pass: "\<not> (400 \<le> status_code ?r \<and> status_code ?r < 600)"
    by (simp add: reply_def)
  have first: "create_conversation ?env ''u1'' None None fresh =
     (Inr ''conv-01234567'',
      fresh\<lparr>trace := [(\<lparr>verb = ''POST'', url = ''http://localhost:8000/api/v2/sessions'',
             req_headers = headers (db fresh),
             json_arg = Some (JObj [(''user_id'', JStr ''u1''), (''session_id'', JStr ''conv-01234567''),
                                    (''metadata'', JObj [])])\<rparr>, Inr ?r)]\<rparr>)"
    using create_conversation_returns_id_used
      [where env = ?env and s = fresh and ?s0.0 = fresh and session_id = None
         and sid = "''conv-01234567''" and user_id = "''u1''" and metadata = None
         and r = ?r and w' = "()"]
      gen pass
    by (simp add: canned_def or_empty_def fresh_def init_def default_base_url_def)
  let ?env2 = "canned ?r 0"
  have second: "create_conversation ?env2 ''u1'' (Some ''s1'') None fresh =
     (Inr ''s1'',
      fresh\<lparr>trace := [(\<lparr>verb = ''POST'', url = ''http://localhost:8000/api/v2/sessions'',
             req_headers = headers (db fresh),
             json_arg = Some (JObj [(''user_id'', JStr ''u1''), (''session_id'', JStr ''s1''),
                                    (''metadata'', JObj [])])\<rparr>, Inr ?r)]\<rparr>)"
    using create_conversation_returns_id_used
      [where env = ?env2 and s = fresh and ?s0.0 = fresh and session_id = "Some ''s1''"
         and sid = "''s1''" and user_id = "''u1''" and metadata = None
         and r = ?r and w' = "()"]
      pass
    by (simp add: canned_def or_empty_def fresh_def init_def default_base_url_def)
  show ?thesis using first second by blast
qed

text \<open>
  C5 as stated fails for a caller who supplies the empty string: \<^verbatim>\<open>if not session_id\<close>
  treats it as omitted, and a generated identifier is returned in its place.
\<close>

theorem empty_session_id_is_replaced:
  "fst (create_conversation (canned (reply 201 (JObj [])) 0) ''u1'' (Some []) None fresh)
     = Inr ''conv-00000000''"
  by (simp add: create_conversation_def new_session_id_def generated_id_zero requests_post_def
      requests_request_result raise_for_status_def canned_def reply_def)

text \<open>
  C6, as the code has it. Against the service of the specification, for a plain session
  identifier and a positive \<open>k\<close>, \<^verbatim>\<open>get_conversation_context(session_id, last_n=k)\<close>
  never returns more than \<open>k\<close> messages, counted as its callers count them. When \<open>k\<close>
  has at most 4300 decimal digits and the service holds the session, it makes one GET with
  \<^verbatim>\<open>lastn=k\<close> and returns the most recent \<open>k\<close> messages; otherwise it raises
  (\<^verbatim>\<open>ValueError\<close> before any request for a longer \<open>k\<close>, \<^verbatim>\<open>HTTPError\<close> for a
  session the service does not hold).
\<close>

theorem get_conversation_context_returns_at_most_k:
  assumes "plain_id session_id" and "transport env = service (base_url (db s))" and "0 < k"
  shows "(\<forall>c. fst (get_conversation_context env session_id k s) = Inr c
            \<longrightarrow> (\<exists>n. returned_count c = Inr n \<and> int n \<le> k))
   \<and> (k < 10 ^ max_str_digits \<and> map_of (stored (world s)) session_id = Some ms
        \<longrightarrow> get_conversation_context env session_id k s =
             (Inr (JObj [(''messages'', JList (last_messages (nat k) ms)),
                         (''relevant_facts'', JList (facts (world s) session_id))]),
              s\<lparr>trace := trace s @
                 [(\<lparr>verb = ''GET'',
                    url = base_url (db s) @ ''/sessions/'' @ session_id
                            @ ''/memory?lastn='' @ str_nat (nat k),
                    req_headers = headers (db s), json_arg = None\<rparr>,
                   Inr (answer 200
                     (JObj [(''messages'', JList (last_messages (nat k) ms)),
                            (''relevant_facts'', JList (facts (world s) session_id))])))]\<rparr>))
   \<and> (10 ^ max_str_digits \<le> k
        \<longrightarrow> get_conversation_context env session_id k s = (Inl ValueError, s))
   \<and> (k < 10 ^ max_str_digits \<and> map_of (stored (world s)) session_id = None
        \<longrightarrow> fst (get_conversation_context env session_id k s)
              = Inl (HTTPError (answer 404 (JStr ''not found''))))"
proof (intro conjI allI impI)
  fix c
  assume ret: "fst (get_conversation_context env session_id k s) = Inr c"
  have nonneg: "0 \<le> k" using assms(3) by simp
  show "\<exists>n. returned_count c = Inr n \<and> int n \<le> k"
  proof (cases "str_int k")
    case (Inl e)
    then have "fst (get_conversation_context env session_id k s) = Inl e"
      by (simp add: get_conversation_context_def)
    then show ?thesis using ret by simp
  next
    case (Inr d)
    note ctx = context_against_service [OF assms(1,2) nonneg Inr]
    show ?thesis
    proof (cases "map_of (stored (world s)) session_id")
      case None
      then show ?thesis using ctx ret by simp
    next
      case (Some held)
      then have c: "c = JObj [(''messages'', JList (last_messages (nat k) held)),
                      (''relevant_facts'', JList (facts (world s) session_id))]"
        using ctx ret by simp
      have "returned_count c = Inr (length (last_messages (nat k) held))"
        by (simp add: c returned_count_def returned_messages_def dict_get_def)
      moreover have "int (length (last_messages (nat k) held)) \<le> k"
        using last_messages_length [of "nat k" held] nonneg by linarith
      ultimately show ?thesis by blast
    qed
  qed
next
  assume a: "k < 10 ^ max_str_digits \<and> map_of (stored (world s)) session_id = Some ms"
  have nonneg: "0 \<le> k" using assms(3) by simp
  have digits: "str_int k = Inr (str_nat (nat k))"
    using nonneg a by (simp add: str_int_within)
  show "get_conversation_context env session_id k s =
             (Inr (JObj [(''messages'', JList (last_messages (nat k) ms)),
                         (''relevant_facts'', JList (facts (world s) session_id))]),
              s\<lparr>trace := trace s @
                 [(\<lparr>verb = ''GET'',
                    url = base_url (db s) @ ''/sessions/'' @ session_id
                            @ ''/memory?lastn='' @ str_nat (nat k),
                    req_headers = headers (db s), json_arg = None\<rparr>,
                   Inr (answer 200
                     (JObj [(''messages'', JList (last_messages (nat k) ms)),
                            (''relevant_facts'', JList (facts (world s) session_id))])))]\<rparr>)"
    using context_against_service [OF assms(1,2) nonneg digits] a by simp
next
  assume "10 ^ max_str_digits \<le> k"
  then have "str_int k = Inl ValueError"
    by (rule str_int_beyond)
  then show "get_conversation_context env session_id k s = (Inl ValueError, s)"
    by (simp add: get_conversation_context_def)
next
  assume a: "k < 10 ^ max_str_digits \<and> map_of (stored (world s)) session_id = None"
  have nonneg: "0 \<le> k" using assms(3) by simp
  have digits: "str_int k = Inr (str_nat (nat k))"
    using nonneg a by (simp add: str_int_within)
  show "fst (get_conversation_context env session_id k s)
          = Inl (HTTPError (answer 404 (JStr ''not found'')))"
    using context_against_service [OF assms(1,2) nonneg digits] a by simp
qed

theorem get_conversation_context_returns_at_most_k_witness:
  "get_conversation_context zep ''s1'' 1 (holding hello_formatted) =
     (Inr (JObj [(''messages'', JList [hello_formatted ! 1]), (''relevant_facts'', JList [])]),
      (holding hello_formatted)\<lparr>trace :=
         [(\<lparr>verb = ''GET'', url = ''http://localhost:8000/api/v2/sessions/s1/memory?lastn=1'',
            req_headers = headers (db (holding hello_formatted)), json_arg = None\<rparr>,
           Inr (answer 200
             (JObj [(''messages'', JList [hello_formatted ! 1]), (''relevant_facts'', JList [])])))]\<rparr>)
   \<and> returned_count
        (JObj [(''messages'', JList [hello_formatted ! 1]), (''relevant_facts'', JList [])])
       = Inr 1
   \<and> get_conversation_context zep ''s1'' (10 ^ max_str_digits) (holding hello_formatted)
       = (Inl ValueError, holding hello_formatted)
   \<and> fst (get_conversation_context zep ''s2'' 1 (holding hello_formatted))
       = Inl (HTTPError (answer 404 (JStr ''not found'')))"
proof -
  note inst = get_conversation_context_returns_at_most_k
    [OF plain_s1 zep_serves, of 1 hello_formatted hello_formatted]
  have short: "(1 :: int) < 10 ^ max_str_digits"
    by (rule below_ten_within) simp
  have long: "get_conversation_context zep ''s1'' (10 ^ max_str_digits) (holding hello_formatted)
       = (Inl ValueError, holding hello_formatted)"
    using get_conversation_context_returns_at_most_k
      [OF plain_s1 zep_serves, of "10 ^ max_str_digits" hello_formatted hello_formatted]
    by simp
  have "plain_id ''s2''"
    by (simp add: plain_id_def)
  from get_conversation_context_returns_at_most_k
      [OF this zep_serves, of 1 hello_formatted hello_formatted] short
  have unknown: "fst (get_conversation_context zep ''s2'' 1 (holding hello_formatted))
       = Inl (HTTPError (answer 404 (JStr ''not found'')))"
    by (simp add: holding_def)
  have one: "str_nat 1 = ''1''" "str_nat (Suc 0) = ''1''"
    by code_simp+
  have "get_conversation_context zep ''s1'' 1 (holding hello_formatted) =
     (Inr (JObj [(''messages'', JList (last_messages (nat 1) hello_formatted)),
                 (''relevant_facts'', JList (facts (world (holding hello_formatted)) ''s1''))]),
      (holding hello_formatted)\<lparr>trace := trace (holding hello_formatted) @
         [(\<lparr>verb = ''GET'',
            url = base_url (db (holding hello_formatted)) @ ''/sessions/'' @ ''s1''
                    @ ''/memory?lastn='' @ str_nat (nat 1),
            req_headers = headers (db (holding hello_formatted)), json_arg = None\<rparr>,
           Inr (answer 200
             (JObj [(''messages'', JList (last_messages (nat 1) hello_formatted)),
                    (''relevant_facts'', JList (facts (world (holding hello_formatted)) ''s1''))])))]\<rparr>)"
    using inst short holding_s1 [of hello_formatted] by simp
  then have run: "get_conversation_context zep ''s1'' 1 (holding hello_formatted) =
     (Inr (JObj [(''messages'', JList [hello_formatted ! 1]), (''relevant_facts'', JList [])]),
      (holding hello_formatted)\<lparr>trace :=
         [(\<lparr>verb = ''GET'', url = ''http://localhost:8000/api/v2/sessions/s1/memory?lastn=1'',
            req_headers = headers (db (holding hello_formatted)), json_arg = None\<rparr>,
           Inr (answer 200
             (JObj [(''messages'', JList [hello_formatted ! 1]), (''relevant_facts'', JList [])])))]\<rparr>)"
    by (simp add: one last_messages_def hello_formatted_def holding_def init_def
        default_base_url_def)
  from inst run have "\<exists>n. returned_count
        (JObj [(''messages'', JList [hello_formatted ! 1]), (''relevant_facts'', JList [])])
       = Inr n \<and> int n \<le> 1"
    by simp
  moreover have "returned_count
        (JObj [(''messages'', JList [hello_formatted ! 1]), (''relevant_facts'', JList [])])
       = Inr 1"
    by (simp add: returned_count_def returned_messages_def dict_get_def)
  ultimately show ?thesis
    using run long unknown by blast
qed

text \<open>
  C6 as stated fails for a session identifier that is not plain: the identifier
  \<^verbatim>\<open>s1/memory?lastn=2&x=\<close> goes into the URL unquoted, the service reads
  \<^verbatim>\<open>lastn=2\<close>, and two messages are returned for \<^verbatim>\<open>last_n=1\<close>.
\<close>

theorem unquoted_id_changes_the_query:
  "fst (get_conversation_context zep ''s1/memory?lastn=2&x='' 1 (holding hello_formatted))
     = Inr (JObj [(''messages'', JList hello_formatted), (''relevant_facts'', JList [])])
   \<and> returned_count (JObj [(''messages'', JList hello_formatted), (''relevant_facts'', JList [])])
       = Inr 2
   \<and> new_exchanges (holding hello_formatted)
        (snd (get_conversation_context zep ''s1/memory?lastn=2&x='' 1 (holding hello_formatted)))
       = [(\<lparr>verb = ''GET'',
            url = ''http://localhost:8000/api/v2/sessions/s1/memory?lastn=2&x=/memory?lastn=1'',
            req_headers = headers (db (holding hello_formatted)), json_arg = None\<rparr>,
           Inr (answer 200
             (JObj [(''messages'', JList hello_formatted), (''relevant_facts'', JList [])])))]"
  by code_simp

text \<open>
  C7. \<^verbatim>\<open>get_conversation_summary(session_id)\<close> makes the one exchange of its
  \<^verbatim>\<open>get_conversation_context\<close> call and no other. When that call returns a dictionary
  whose \<^verbatim>\<open>messages\<close> is a list (or is absent, which counts as the empty list), the
  summary holds the \<^verbatim>\<open>session_id\<close> it was given, the length of that list, the
  \<^verbatim>\<open>relevant_facts\<close> and \<^verbatim>\<open>context\<close> of the dictionary as they are, and a
  \<^verbatim>\<open>last_updated\<close> read from the local clock after the call.
\<close>

theorem get_conversation_summary_from_context:
  assumes "get_conversation_context env session_id 10 s = (Inr (JObj d), s1)"
    and "dict_get d ''messages'' (JList []) = JList ms"
    and "now_isoformat env (world s1) = (t, w')"
  shows "get_conversation_summary env session_id s =
     (Inr (JObj [(''session_id'', JStr session_id),
                 (''message_count'', JInt (int (length ms))),
                 (''relevant_facts'', dict_get d ''relevant_facts'' (JList [])),
                 (''context'', dict_get d ''context'' (JStr [])),
                 (''last_updated'', JStr t)]),
      s1\<lparr>world := w'\<rparr>)
   \<and> (\<exists>x. trace (snd (get_conversation_summary env session_id s)) = trace s @ [x])"
proof -
  have one: "\<exists>x. trace (snd (get_conversation_context env session_id 10 s)) = trace s @ [x]"
    by (simp add: get_conversation_context_snd str_int_examples requests_get_def
        requests_request_result)
  show ?thesis
    using assms one by (simp add: get_conversation_summary_def get_conversation_summary_trace)
qed

theorem get_conversation_summary_from_context_witness:
  "get_conversation_summary (canned (reply 200 snapshot) 0) ''s1'' fresh =
     (Inr (JObj [(''session_id'', JStr ''s1''),
                 (''message_count'', JInt 2),
                 (''relevant_facts'', JList [JStr ''speaks English'']),
                 (''context'', JStr ''a greeting''),
                 (''last_updated'', JStr ''2024-01-01T00:00:00'')]),
      fresh\<lparr>trace := [(\<lparr>verb = ''GET'',
             url = ''http://localhost:8000/api/v2/sessions/s1/memory?lastn=10'',
             req_headers = headers (db fresh), json_arg = None\<rparr>, Inr (reply 200 snapshot))]\<rparr>)"
proof -
  let ?env = "canned (reply 200 snapshot) 0"
  let ?d = "[(''messages'', JList hello_formatted),
             (''relevant_facts'', JList [JStr ''speaks English'']),
             (''context'', JStr ''a greeting'')]"
  let ?s1 = "fresh\<lparr>trace := [(\<lparr>verb = ''GET'',
             url = ''http://localhost:8000/api/v2/sessions/s1/memory?lastn=10'',
             req_headers = headers (db fresh), json_arg = None\<rparr>, Inr (reply 200 snapshot))]\<rparr>"
  have ctx: "get_conversation_context ?env ''s1'' 10 fresh = (Inr (JObj ?d), ?s1)"
    by (simp add: get_conversation_context_def requests_get_def requests_request_result
        raise_for_status_def response_json_def str_int_examples double_defs snapshot_def)
  have msgs: "dict_get ?d ''messages'' (JList []) = JList hello_formatted"
    by (simp add: dict_get_def)
  have clock: "now_isoformat ?env (world ?s1) = (''2024-01-01T00:00:00'', ())"
    by (simp add: canned_def)
  show ?thesis
    using get_conversation_summary_from_context [OF ctx msgs clock]
    by (simp add: dict_get_def hello_formatted_def)
qed

text \<open>
  C8. A session created without an identifier gets \<^verbatim>\<open>conv-\<close> followed by eight
  hexadecimal digits: thirteen characters, never empty. The digits show the top thirty-two
  bits of the sixteen random bytes, so two generated identifiers are equal exactly when
  the two reads agree on their first four bytes. Repeated calls in one process return the
  identifiers of the successive reads. With the reads uniform and independent, every list
  of \<open>n\<close> reads is equally likely, and the share of the lists that hold a duplicate
  identifier is at most \<open>(n choose 2) / 2 ^ 32\<close>: for 1000 identifiers at most
  \<open>499500 / 2 ^ 32\<close>, less than 1.2 in 10000.
\<close>

theorem generated_ids_nonempty_and_rarely_equal:
  "(\<forall>sid s'. (session_id = None \<or> session_id = Some [])
        \<and> create_conversation env user_id session_id metadata s = (Inr sid, s')
      \<longrightarrow> sid = generated_id (fst (urandom16 env (world s))) \<and> sid \<noteq> [] \<and> length sid = 13)
   \<and> (generated_id r = generated_id r' \<longleftrightarrow> drop_bit 96 r = drop_bit 96 r')
   \<and> (\<not> (400 \<le> status_code resp \<and> status_code resp < 600) \<longrightarrow>
        fst (run_calls (tape resp) (replicate (length rs) (CreateConversation user_id None metadata))
               \<lparr>db = d, world = rs, trace = tr\<rparr>)
          = map (\<lambda>b. Inr (JStr (generated_id b))) rs)
   \<and> card {bs. length bs = n \<and> \<not> distinct (map generated_id bs)} * 2 ^ 32
        \<le> (n choose 2) * card {bs :: 128 word list. length bs = n}
   \<and> card {bs. length bs = 1000 \<and> \<not> distinct (map generated_id bs)} * 2 ^ 32
        \<le> 499500 * card {bs :: 128 word list. length bs = 1000}"
proof (intro conjI allI impI)
  fix sid s'
  assume a: "(session_id = None \<or> session_id = Some [])
        \<and> create_conversation env user_id session_id metadata s = (Inr sid, s')"
  then have sid: "sid = generated_id (fst (urandom16 env (world s)))"
    using create_conversation_generated [of session_id env user_id metadata s sid s'] by blast
  then show "sid = generated_id (fst (urandom16 env (world s)))" .
  from sid have "length sid = 13" by (simp add: generated_id_length)
  then show "length sid = 13" .
  then show "sid \<noteq> []" by auto
next
  show "generated_id r = generated_id r' \<longleftrightarrow> drop_bit 96 r = drop_bit 96 r'"
    by (rule generated_id_eq_iff)
next
  assume "\<not> (400 \<le> status_code resp \<and> status_code resp < 600)"
  then show "fst (run_calls (tape resp) (replicate (length rs) (CreateConversation user_id None metadata))
               \<lparr>db = d, world = rs, trace = tr\<rparr>)
          = map (\<lambda>b. Inr (JStr (generated_id b))) rs"
    by (rule run_calls_tape)
next
  show "card {bs. length bs = n \<and> \<not> distinct (map generated_id bs)} * 2 ^ 32
        \<le> (n choose 2) * card {bs :: 128 word list. length bs = n}"
    by (rule duplicate_ids_are_rare)
next
  show "card {bs. length bs = 1000 \<and> \<not> distinct (map generated_id bs)} * 2 ^ 32
        \<le> 499500 * card {bs :: 128 word list. length bs = 1000}"
    using duplicate_ids_are_rare [of 1000] by (simp only: thousand_choose_two)
qed

theorem generated_ids_nonempty_and_rarely_equal_witness:
  "create_conversation (canned (reply 201 JNull) 0x0123456789abcdef0123456789abcdef)
      ''u1'' None None fresh
     = (Inr ''conv-01234567'',
        fresh\<lparr>trace := [(\<lparr>verb = ''POST'', url = ''http://localhost:8000/api/v2/sessions'',
             req_headers = headers (db fresh),
             json_arg = Some (JObj [(''user_id'', JStr ''u1''), (''session_id'', JStr ''conv-01234567''),
                                    (''metadata'', JObj [])])\<rparr>, Inr (reply 201 JNull))]\<rparr>)
   \<and> ''conv-01234567'' \<noteq> [] \<and> length ''conv-01234567'' = 13
   \<and> fst (run_calls (tape (reply 201 JNull)) (replicate 2 (CreateConversation ''u1'' None None))
          \<lparr>db = init default_base_url default_api_key,
            world = [0x0123456789abcdef0123456789abcdef, 0xfedcba9876543210fedcba9876543210],
            trace = []\<rparr>)
       = [Inr (JStr ''conv-01234567''), Inr (JStr ''conv-fedcba98'')]
   \<and> generated_id 1 = generated_id 0
   \<and> card {bs. length bs = 2 \<and> \<not> distinct (map generated_id bs)} * 2 ^ 32
        \<le> card {bs :: 128 word list. length bs = 2}"
proof -
  let ?b = "0x0123456789abcdef0123456789abcdef :: 128 word"
  let ?b2 = "0xfedcba9876543210fedcba9876543210 :: 128 word"
  let ?env = "canned (reply 201 JNull) ?b"
  let ?s' = "fresh\<lparr>trace := [(\<lparr>verb = ''POST'', url = ''http://localhost:8000/api/v2/sessions'',
             req_headers = headers (db fresh),
             json_arg = Some (JObj [(''user_id'', JStr ''u1''), (''session_id'', JStr ''conv-01234567''),
                                    (''metadata'', JObj [])])\<rparr>, Inr (reply 201 JNull))]\<rparr>"
  note inst = generated_ids_nonempty_and_rarely_equal
    [where session_id = None and env = ?env and user_id = "''u1''" and metadata = None
       and s = fresh and r = 1 and r' = 0 and resp = "reply 201 JNull"
       and rs = "[?b, ?b2]" and d = "init default_base_url default_api_key" and tr = "[]"
       and n = 2]
  have run: "create_conversation ?env ''u1'' None None fresh = (Inr ''conv-01234567'', ?s')"
    by (simp add: create_conversation_def new_session_id_def generated_id_example requests_post_def
        requests_request_result raise_for_status_def or_empty_def double_defs)
  from inst run have "''conv-01234567'' \<noteq> [] \<and> length ''conv-01234567'' = 13"
    by blast
  moreover have "\<not> (400 \<le> status_code (reply 201 JNull) \<and> status_code (reply 201 JNull) < 600)"
    by (simp add: reply_def)
  with inst have "fst (run_calls (tape (reply 201 JNull))
          (replicate (length [?b, ?b2]) (CreateConversation ''u1'' None None))
          \<lparr>db = init default_base_url default_api_key, world = [?b, ?b2], trace = []\<rparr>)
       = map (\<lambda>b. Inr (JStr (generated_id b))) [?b, ?b2]"
    by blast
  then have "fst (run_calls (tape (reply 201 JNull)) (replicate 2 (CreateConversation ''u1'' None None))
          \<lparr>db = init default_base_url default_api_key, world = [?b, ?b2], trace = []\<rparr>)
       = [Inr (JStr ''conv-01234567''), Inr (JStr ''conv-fedcba98'')]"
    by (simp add: generated_id_example generated_id_example2 numeral_2_eq_2)
  moreover have "drop_bit 96 (1 :: 128 word) = drop_bit 96 (0 :: 128 word)"
    by simp
  with inst have "generated_id 1 = generated_id 0"
    by blast
  moreover from inst have "card {bs. length bs = 2 \<and> \<not> distinct (map generated_id bs)} * 2 ^ 32
        \<le> (2 choose 2) * card {bs :: 128 word list. length bs = 2}"
    by blast
  then have "card {bs. length bs = 2 \<and> \<not> distinct (map generated_id bs)} * 2 ^ 32
        \<le> card {bs :: 128 word list. length bs = 2}"
    by simp
  ultimately show ?thesis
    using run by blast
qed

text \<open>
  C9. No method assigns to \<^verbatim>\<open>self.base_url\<close> or \<^verbatim>\<open>self.headers\<close>: after any
  call, and after any sequence of calls with any arguments against any environment, the
  object is what it was.
\<close>

theorem configuration_never_changes:
  "db (snd (run_call env c s)) = db s
   \<and> db (snd (run_calls env cs s)) = db s
   \<and> base_url (db (snd (run_calls env cs s))) = base_url (db s)
   \<and> headers (db (snd (run_calls env cs s))) = headers (db s)"
  by (simp add: run_call_db run_calls_db)

text \<open>
  C10. \<^verbatim>\<open>add_message\<close> sends one entry whose \<^verbatim>\<open>role\<close> and \<^verbatim>\<open>role_type\<close> are both
  the \<^verbatim>\<open>role\<close> argument. \<^verbatim>\<open>add_conversation_batch\<close> sends, for the i-th message, an
  entry whose \<^verbatim>\<open>role\<close> and \<^verbatim>\<open>role_type\<close> are both \<^verbatim>\<open>msg["role"]\<close> of that message,
  and makes no request when a message lacks \<^verbatim>\<open>role\<close> or \<^verbatim>\<open>content\<close>. So in every
  request of every method each entry of the \<^verbatim>\<open>messages\<close> array has a \<^verbatim>\<open>role_type\<close>
  equal to its \<^verbatim>\<open>role\<close>. A \<^verbatim>\<open>role_type\<close> the caller puts in a batch message is never
  read: batches that agree on \<^verbatim>\<open>role\<close>, \<^verbatim>\<open>content\<close> and \<^verbatim>\<open>metadata\<close> make the same
  request and return the same result.
\<close>

theorem role_type_is_the_callers_role:
  "new_exchanges s (snd (add_message env session_id role content metadata s)) =
     [(\<lparr>verb = ''POST'', url = base_url (db s) @ ''/sessions/'' @ session_id @ ''/memory'',
        req_headers = headers (db s),
        json_arg = Some (JObj [(''messages'', JList [JObj
           [(''role'', JStr role), (''role_type'', JStr role),
            (''content'', JStr content), (''metadata'', JObj (or_empty metadata))]])])\<rparr>,
       fst (transport env
         \<lparr>verb = ''POST'', url = base_url (db s) @ ''/sessions/'' @ session_id @ ''/memory'',
          req_headers = headers (db s),
          json_arg = Some (JObj [(''messages'', JList [JObj
            [(''role'', JStr role), (''role_type'', JStr role),
             (''content'', JStr content), (''metadata'', JObj (or_empty metadata))]])])\<rparr>
         (world s)))]
   \<and> (format_messages [] msgs = Inr fm \<longrightarrow>
        (\<exists>res. new_exchanges s (snd (add_conversation_batch env session_id msgs s)) =
           [(\<lparr>verb = ''POST'', url = base_url (db s) @ ''/sessions/'' @ session_id @ ''/memory'',
              req_headers = headers (db s),
              json_arg = Some (JObj [(''messages'', JList fm)])\<rparr>, res)])
        \<and> length fm = length msgs
        \<and> (\<forall>i<length msgs. \<exists>r. map_of (msgs ! i) ''role'' = Some r
               \<and> entry_field (fm ! i) ''role'' = Some r
               \<and> entry_field (fm ! i) ''role_type'' = Some r))
   \<and> ((\<forall>fm. format_messages [] msgs \<noteq> Inr fm) \<longrightarrow>
        new_exchanges s (snd (add_conversation_batch env session_id msgs s)) = [])
   \<and> (\<forall>x \<in> set (new_exchanges s (snd (run_call env c s))).
        \<forall>m \<in> set (body_messages (fst x)). role_fields_agree m)
   \<and> (list_all2 same_message msgs msgs' \<longrightarrow>
        add_conversation_batch env session_id msgs s
          = add_conversation_batch env session_id msgs' s)"
proof (intro conjI impI)
  show "new_exchanges s (snd (add_message env session_id role content metadata s)) =
     [(\<lparr>verb = ''POST'', url = base_url (db s) @ ''/sessions/'' @ session_id @ ''/memory'',
        req_headers = headers (db s),
        json_arg = Some (JObj [(''messages'', JList [JObj
           [(''role'', JStr role), (''role_type'', JStr role),
            (''content'', JStr content), (''metadata'', JObj (or_empty metadata))]])])\<rparr>,
       fst (transport env
         \<lparr>verb = ''POST'', url = base_url (db s) @ ''/sessions/'' @ session_id @ ''/memory'',
          req_headers = headers (db s),
          json_arg = Some (JObj [(''messages'', JList [JObj
            [(''role'', JStr role), (''role_type'', JStr role),
             (''content'', JStr content), (''metadata'', JObj (or_empty metadata))]])])\<rparr>
         (world s)))]"
    by (simp add: add_message_snd)
next
  assume fmt: "format_messages [] msgs = Inr fm"
  then show "\<exists>res. new_exchanges s (snd (add_conversation_batch env session_id msgs s)) =
           [(\<lparr>verb = ''POST'', url = base_url (db s) @ ''/sessions/'' @ session_id @ ''/memory'',
              req_headers = headers (db s),
              json_arg = Some (JObj [(''messages'', JList fm)])\<rparr>, res)]"
    by (simp add: add_conversation_batch_snd)
  from format_messages_pointwise [OF fmt]
  have pw: "list_all2 (\<lambda>msg m. format_message msg = Inr m) msgs fm"
    by simp
  then show "length fm = length msgs"
    by (simp add: list_all2_lengthD)
  show "\<forall>i<length msgs. \<exists>r. map_of (msgs ! i) ''role'' = Some r
               \<and> entry_field (fm ! i) ''role'' = Some r
               \<and> entry_field (fm ! i) ''role_type'' = Some r"
  proof (intro allI impI)
    fix i
    assume "i < length msgs"
    then have "format_message (msgs ! i) = Inr (fm ! i)"
      using pw by (simp add: list_all2_conv_all_nth)
    then show "\<exists>r. map_of (msgs ! i) ''role'' = Some r
               \<and> entry_field (fm ! i) ''role'' = Some r
               \<and> entry_field (fm ! i) ''role_type'' = Some r"
      by (rule format_message_roles)
  qed
next
  assume "\<forall>fm. format_messages [] msgs \<noteq> Inr fm"
  then obtain e where "format_messages [] msgs = Inl e"
    by (cases "format_messages [] msgs") auto
  then show "new_exchanges s (snd (add_conversation_batch env session_id msgs s)) = []"
    by (simp add: add_conversation_batch_snd)
next
  show "\<forall>x \<in> set (new_exchanges s (snd (run_call env c s))).
        \<forall>m \<in> set (body_messages (fst x)). role_fields_agree m"
    by (rule run_call_messages_agree)
next
  assume "list_all2 same_message msgs msgs'"
  then show "add_conversation_batch env session_id msgs s
          = add_conversation_batch env session_id msgs' s"
    by (simp add: add_conversation_batch_def format_messages_cong)
qed

theorem role_type_is_the_callers_role_witness:
  "new_exchanges fresh
      (snd (add_message (canned (reply 200 (JObj [])) 0) ''s1'' ''user'' ''hello'' None fresh))
     = [(\<lparr>verb = ''POST'', url = ''http://localhost:8000/api/v2/sessions/s1/memory'',
          req_headers = headers (db fresh),
          json_arg = Some (JObj [(''messages'', JList [JObj
             [(''role'', JStr ''user''), (''role_type'', JStr ''user''),
              (''content'', JStr ''hello''), (''metadata'', JObj [])]])])\<rparr>,
         Inr (reply 200 (JObj [])))]
   \<and> new_exchanges fresh
      (snd (run_call (canned (reply 200 (JObj [])) 0) (AddConversationBatch ''s1'' hello_batch) fresh))
     = [(\<lparr>verb = ''POST'', url = ''http://localhost:8000/api/v2/sessions/s1/memory'',
          req_headers = headers (db fresh),
          json_arg = Some (JObj [(''messages'', JList hello_formatted)])\<rparr>,
         Inr (reply 200 (JObj [])))]
   \<and> map_of (hello_batch ! 0) ''role'' = Some (JStr ''user'')
   \<and> map_of (hello_batch ! 0) ''role_type'' = Some (JStr ''system'')
   \<and> entry_field (hello_formatted ! 0) ''role'' = Some (JStr ''user'')
   \<and> entry_field (hello_formatted ! 0) ''role_type'' = Some (JStr ''user'')
   \<and> list_all role_fields_agree hello_formatted
   \<and> list_all2 same_message hello_batch (map (filter (\<lambda>kv. fst kv \<noteq> ''role_type'')) hello_batch)
   \<and> add_conversation_batch (canned (reply 200 (JObj [])) 0) ''s1'' hello_batch fresh
       = add_conversation_batch (canned (reply 200 (JObj [])) 0) ''s1''
           (map (filter (\<lambda>kv. fst kv \<noteq> ''role_type'')) hello_batch) fresh"
proof -
  let ?env = "canned (reply 200 (JObj [])) 0"
  let ?c = "AddConversationBatch ''s1'' hello_batch"
  let ?rq = "\<lparr>verb = ''POST'', url = ''http://localhost:8000/api/v2/sessions/s1/memory'',
          req_headers = headers (db fresh),
          json_arg = Some (JObj [(''messages'', JList hello_formatted)])\<rparr>"
  let ?plain = "map (filter (\<lambda>kv. fst kv \<noteq> ''role_type'')) hello_batch"
  note inst = role_type_is_the_callers_role
    [where s = fresh and env = ?env and c = ?c and msgs = hello_batch and msgs' = ?plain
       and session_id = "''s1''" and role = "''user''" and content = "''hello''"
       and metadata = None and fm = hello_formatted]
  from inst have single: "new_exchanges fresh
      (snd (add_message ?env ''s1'' ''user'' ''hello'' None fresh))
     = [(\<lparr>verb = ''POST'', url = ''http://localhost:8000/api/v2/sessions/s1/memory'',
          req_headers = headers (db fresh),
          json_arg = Some (JObj [(''messages'', JList [JObj
             [(''role'', JStr ''user''), (''role_type'', JStr ''user''),
              (''content'', JStr ''hello''), (''metadata'', JObj [])]])])\<rparr>,
         Inr (reply 200 (JObj [])))]"
    by (simp add: or_empty_def canned_def fresh_def init_def default_base_url_def)
  have new: "new_exchanges fresh (snd (run_call ?env ?c fresh)) = [(?rq, Inr (reply 200 (JObj [])))]"
    by (simp add: add_conversation_batch_snd format_hello double_defs)
  from inst format_hello
  have every: "\<forall>i<length hello_batch. \<exists>r. map_of (hello_batch ! i) ''role'' = Some r
               \<and> entry_field (hello_formatted ! i) ''role'' = Some r
               \<and> entry_field (hello_formatted ! i) ''role_type'' = Some r"
    by blast
  have "0 < length hello_batch"
    by (simp add: hello_batch_def)
  with every have "\<exists>r. map_of (hello_batch ! 0) ''role'' = Some r
               \<and> entry_field (hello_formatted ! 0) ''role'' = Some r
               \<and> entry_field (hello_formatted ! 0) ''role_type'' = Some r"
    by blast
  moreover have caller: "map_of (hello_batch ! 0) ''role'' = Some (JStr ''user'')"
    "map_of (hello_batch ! 0) ''role_type'' = Some (JStr ''system'')"
    by (simp_all add: hello_batch_def)
  ultimately have sent: "entry_field (hello_formatted ! 0) ''role'' = Some (JStr ''user'')"
    "entry_field (hello_formatted ! 0) ''role_type'' = Some (JStr ''user'')"
    by auto
  have same: "list_all2 same_message hello_batch ?plain"
    by (simp add: hello_batch_def same_message_def)
  from inst have "\<forall>m \<in> set (body_messages (fst (?rq, Inr (reply 200 (JObj []))))). role_fields_agree m"
    unfolding new by simp
  then have agree: "list_all role_fields_agree hello_formatted"
    by (simp add: list_all_iff)
  from inst same have eq: "add_conversation_batch ?env ''s1'' hello_batch fresh
       = add_conversation_batch ?env ''s1'' ?plain fresh"
    by blast
  show ?thesis
    using single new caller sent agree same eq by blast
qed

end
